theory Spec2Isabelle
  imports Main "HOL-Library.Word" "HOL-Library.Signed_Division"
begin

section \<open>The function consensus reactor (fnConsensus)\<close>

text \<open>
  A shallow embedding of the reactor of package \<open>fnConsensus\<close>: the configuration check,
  the startup routine, the proposer rotation, \<open>propose\<close>, the commit routine,
  \<open>compareVoteSets\<close> and the two gossip handlers. A handler is a function from the
  reactor (with its \<open>ReactorState\<close>) to the reactor afterwards, the list of effects it
  performed on its collaborators, in order, and whether it panicked.
\<close>

subsection \<open>Basic types and constants\<close>

type_synonym bytes = "8 word list"

text \<open>Go's \<open>int64\<close>; Go's \<open>int\<close> has the same width on the 64-bit targets of the chain.\<close>

type_synonym int64 = "64 word"

text \<open>\<open>time.Duration\<close> values, in whole seconds.\<close>

type_synonym duration = int

type_synonym SigningThreshold = string

definition FnVoteSetChannel :: "8 word" where
  "FnVoteSetChannel = 0x50"

definition FnMaj23Channel :: "8 word" where
  "FnMaj23Channel = 0x51"

definition StartingNonce :: int64 where
  "StartingNonce = 1"

definition CommitRoutineExecutionBuffer :: duration where
  "CommitRoutineExecutionBuffer = 1"

definition ExpiresIn :: duration where
  "ExpiresIn = 50 + CommitRoutineExecutionBuffer"

definition ExpiresInForSync :: duration where
  "ExpiresInForSync = 40"

definition MaxContextSize :: nat where
  "MaxContextSize = 1024"

definition Maj23SigningThreshold :: SigningThreshold where
  "Maj23SigningThreshold = ''Maj23''"

definition AllSigningThreshold :: SigningThreshold where
  "AllSigningThreshold = ''All''"

datatype error = ErrInvalidReactorConfiguration | ErrOther string

subsection \<open>Configuration\<close>

record OverrideValidator =
  ov_Address :: bytes
  ov_Power :: int64

record ReactorConfig =
  OverrideValidatorSet :: "OverrideValidator list"
  FnVoteSigningThreshold :: SigningThreshold

text \<open>
  \<open>func (r *ReactorConfig) IsValid() bool\<close>. The receiver is a pointer, \<open>None\<close> is
  \<open>nil\<close>; Go's \<open>||\<close> does not read the field of a nil receiver.
\<close>

definition IsValid :: "ReactorConfig option \<Rightarrow> bool" where
  "IsValid r =
     (case r of
        None \<Rightarrow> True
      | Some c \<Rightarrow> FnVoteSigningThreshold c \<noteq> AllSigningThreshold
                 \<and> FnVoteSigningThreshold c \<noteq> Maj23SigningThreshold)"

subsection \<open>Validator sets\<close>

text \<open>
  \<open>types.ValidatorSet\<close> of the host chain: an ordered list of validators. The voting
  power is an \<open>int64\<close> whose total the host chain bounds, so sums of powers are taken
  in \<open>int\<close>.
\<close>

record Validator =
  Address :: bytes
  VotingPower :: int

type_synonym ValidatorSet = "Validator list"

text \<open>\<open>GetByAddress\<close>: the index of the first validator with that address, or -1.\<close>

primrec GetByAddress :: "ValidatorSet \<Rightarrow> bytes \<Rightarrow> int" where
  "GetByAddress [] a = - 1"
| "GetByAddress (v # vs) a =
     (if Address v = a then 0
      else (let i = GetByAddress vs a in if i = - 1 then - 1 else i + 1))"

definition TotalVotingPower :: "ValidatorSet \<Rightarrow> int" where
  "TotalVotingPower vals = sum_list (map VotingPower vals)"

subsection \<open>Vote sets\<close>

record ProposalInfo =
  LastActiveValidators :: "bytes list"
  CurrentTurn :: int64

record FnExecutionRequest =
  FnID :: string

record FnIndividualExecutionResponse =
  ind_Status :: int64
  ind_Error :: string
  ind_Hash :: bytes
  ind_OracleSignature :: bytes

record FnExecutionResponse =
  Status :: int64
  Error :: string
  Hash :: bytes
  OracleSignatures :: "bytes list"

record FnVotePayload =
  Request :: FnExecutionRequest
  Response :: FnExecutionResponse

datatype VoteType = Unvoted | VoteTypeAgree | VoteTypeDisAgree

text \<open>
  Modelled from the spec: the declaration of \<open>FnVoteSet\<close> is not among the sources. The
  fields are the attributes of the spec's data model; \<open>Votes\<close> holds one slot per
  validator index and \<open>ValidatorSignatures\<close> the validator's signature of each slot.
\<close>

record FnVoteSet =
  ID :: string
  Nonce :: int64
  ChainID :: string
  CreationTime :: int64
  VoteSetExpiresIn :: duration
  ValidatorsHash :: bytes
  ExecutionContext :: bytes
  Payload :: FnVotePayload
  Votes :: "VoteType list"
  ValidatorSignatures :: "bytes list"
  ProposalInfo :: "ProposalInfo option"

text \<open>
  Modelled from the spec: \<open>GetFnID\<close> and \<open>GetMessageHash\<close>, whose code is not among the
  sources, read the FnID of the request and the hash of the response.
\<close>

definition GetFnID :: "FnVoteSet \<Rightarrow> string" where
  "GetFnID vs = FnID (Request (Payload vs))"

definition GetMessageHash :: "FnVoteSet \<Rightarrow> bytes" where
  "GetMessageHash vs = Hash (Response (Payload vs))"

text \<open>
  Modelled from the spec: the counting queries of \<open>FnVoteSet\<close>, whose code is not among the
  sources. \<open>NumberOfVotes\<close> counts the slots that hold a vote, \<open>NumberOfAgreeVotes\<close> those
  that hold an Agree vote; \<open>HaveWeAlreadySigned\<close> says whether the slot of a validator
  index holds a vote.
\<close>

definition NumberOfVotes :: "FnVoteSet \<Rightarrow> int" where
  "NumberOfVotes vs = int (length (filter (\<lambda>v. v \<noteq> Unvoted) (Votes vs)))"

definition NumberOfAgreeVotes :: "FnVoteSet \<Rightarrow> int" where
  "NumberOfAgreeVotes vs = int (length (filter (\<lambda>v. v = VoteTypeAgree) (Votes vs)))"

definition HaveWeAlreadySigned :: "FnVoteSet \<Rightarrow> int \<Rightarrow> bool" where
  "HaveWeAlreadySigned vs i =
     (0 \<le> i \<and> nat i < length (Votes vs) \<and> Votes vs ! nat i \<noteq> Unvoted)"

text \<open>
  Modelled from the spec: the voting power behind the votes, the sum of the powers of the
  validators whose slot satisfies \<open>P\<close>.
\<close>

fun votedPower :: "(VoteType \<Rightarrow> bool) \<Rightarrow> VoteType list \<Rightarrow> ValidatorSet \<Rightarrow> int" where
  "votedPower P (v # vs) (x # xs) = (if P v then VotingPower x else 0) + votedPower P vs xs"
| "votedPower P _ _ = 0"

text \<open>
  Modelled from the spec: the thresholds, whose code is not among the sources. \<open>Maj23\<close> is
  strictly more than two thirds of the total power, \<open>All\<close> is all of it; the spec names no
  other threshold.
\<close>

definition meetsThreshold :: "SigningThreshold \<Rightarrow> int \<Rightarrow> int \<Rightarrow> bool" where
  "meetsThreshold thr p tot =
     (if thr = Maj23SigningThreshold then 2 * tot < 3 * p
      else if thr = AllSigningThreshold then tot \<le> p
      else False)"

text \<open>
  Modelled from the spec: \<open>HasConverged\<close> holds when the power of the slots that hold a vote
  meets the threshold; \<open>IsAgree\<close> and \<open>IsDisagree\<close> are the same check on the Agree votes
  and on the Disagree votes.
\<close>

definition HasConverged :: "SigningThreshold \<Rightarrow> ValidatorSet \<Rightarrow> FnVoteSet \<Rightarrow> bool" where
  "HasConverged thr vals vs =
     meetsThreshold thr (votedPower (\<lambda>v. v \<noteq> Unvoted) (Votes vs) vals) (TotalVotingPower vals)"

definition IsAgree :: "SigningThreshold \<Rightarrow> ValidatorSet \<Rightarrow> FnVoteSet \<Rightarrow> bool" where
  "IsAgree thr vals vs =
     meetsThreshold thr (votedPower (\<lambda>v. v = VoteTypeAgree) (Votes vs) vals) (TotalVotingPower vals)"

definition IsDisagree :: "SigningThreshold \<Rightarrow> ValidatorSet \<Rightarrow> FnVoteSet \<Rightarrow> bool" where
  "IsDisagree thr vals vs =
     meetsThreshold thr (votedPower (\<lambda>v. v = VoteTypeDisAgree) (Votes vs) vals) (TotalVotingPower vals)"

text \<open>
  Modelled from the spec: \<open>IsExpired\<close>, whose code is not among the sources; a vote set
  has expired when \<open>now \<ge> CreationTime + bound\<close>.
\<close>

definition IsExpired :: "int \<Rightarrow> FnVoteSet \<Rightarrow> duration \<Rightarrow> bool" where
  "IsExpired tnow vs bound = (sint (CreationTime vs) + bound \<le> tnow)"

text \<open>
  Modelled from the spec: \<open>GetAgreeVoteIndexForValidatorIndex\<close>, whose code is not among the
  sources, returns the dense rank of a validator among the Agree voters, and an error for
  a validator index that holds no Agree vote.
\<close>

definition GetAgreeVoteIndexForValidatorIndex :: "FnVoteSet \<Rightarrow> int \<Rightarrow> error + int" where
  "GetAgreeVoteIndexForValidatorIndex vs i =
     (if 0 \<le> i \<and> nat i < length (Votes vs) \<and> Votes vs ! nat i = VoteTypeAgree
      then Inr (int (length (filter (\<lambda>v. v = VoteTypeAgree) (take (nat i) (Votes vs)))))
      else Inl (ErrOther ''no agree vote of this validator''))"

subsection \<open>The reactor, its state and its collaborators\<close>

text \<open>
  The \<open>Fn\<close> callbacks that return a value; \<open>SubmitMultiSignedMessage\<close> returns nothing
  and is recorded as an effect.
\<close>

record Fn =
  PrepareContext :: "error + bool \<times> bytes"
  GetMessageAndSignature :: "bytes \<Rightarrow> error + bytes \<times> bytes"
  MapMessage :: "bytes \<Rightarrow> bytes \<Rightarrow> bytes \<Rightarrow> error option"

type_synonym FnRegistry = "(string \<times> Fn) list"

definition registryGet :: "FnRegistry \<Rightarrow> string \<Rightarrow> Fn option" where
  "registryGet reg fnID = map_of reg fnID"

definition GetAll :: "FnRegistry \<Rightarrow> string list" where
  "GetAll reg = map fst reg"

text \<open>
  \<open>ReactorState\<close>, by the fields the reactor reads and writes. A Go map of pointers is a
  partial map: the reactor only looks keys up, so a key that holds nil and a key that is
  absent are the same to it.
\<close>

record ReactorState =
  CurrentVoteSets :: "string \<rightharpoonup> FnVoteSet"
  PreviousMaj23VoteSets :: "string \<rightharpoonup> FnVoteSet"
  PreviousTimedOutVoteSets :: "string \<rightharpoonup> FnVoteSet"
  CurrentNonces :: "string \<rightharpoonup> int64"
  CurrentProposalInfo :: "string \<rightharpoonup> ProposalInfo"
  PreviousValidatorSet :: "ValidatorSet option"

text \<open>
  \<open>connectedPeers\<close> lists the IDs of the peer map (Go ranges over it in no fixed order,
  the order of the list carries no meaning); \<open>privValidator\<close> is the address of the
  node's key, what \<open>myAddress\<close> returns; \<open>commitRoutineQuitCh\<close> holds the FnIDs that
  have a quit channel.
\<close>

record FnConsensusReactor =
  connectedPeers :: "string list"
  state :: "ReactorState option"
  chainID :: string
  fnRegistry :: FnRegistry
  privValidator :: bytes
  commitRoutineQuitCh :: "string set"
  staticValidators :: "ValidatorSet option"
  cfg :: "ReactorConfig option"

text \<open>
  What a run reads from outside the reactor: the clock, the host chain's validator set
  and its hash, the databases, the key that signs and the check of a signature, SHA-512
  and the random source. The methods of \<open>FnVoteSet\<close> that the reactor only calls and
  whose code is not among the sources (\<open>IsValid\<close>, \<open>ActiveValidators\<close>, \<open>Marshal\<close>,
  \<open>Unmarshal\<close>) are parameters as well: what is proved holds for every implementation
  of them. \<open>VoteSetIsValid\<close> takes the receiver as an option, \<open>None\<close> for a nil pointer.
\<close>

record env =
  now :: int
  tmValidators :: ValidatorSet
  vsHash :: "ValidatorSet \<Rightarrow> bytes"
  sha512 :: "bytes \<Rightarrow> bytes"
  randomID :: "error + string"
  VoteSetIsValid :: "string \<Rightarrow> nat \<Rightarrow> bool \<Rightarrow> duration \<Rightarrow> ValidatorSet \<Rightarrow> FnRegistry
                     \<Rightarrow> FnVoteSet option \<Rightarrow> bool"
  Marshal :: "FnVoteSet \<Rightarrow> error + bytes"
  Unmarshal :: "bytes \<Rightarrow> error + FnVoteSet"
  ActiveValidators :: "FnVoteSet \<Rightarrow> bytes list"
  SignVote :: "FnVoteSet \<Rightarrow> nat \<Rightarrow> VoteType \<Rightarrow> error + bytes"
  VerifyVote :: "ValidatorSet \<Rightarrow> FnVoteSet \<Rightarrow> nat \<Rightarrow> bool"
  LoadReactorState :: "error + ReactorState"
  SaveReactorState :: "ReactorState \<Rightarrow> error option"

text \<open>The effects of a run on its collaborators.\<close>

datatype event =
    Send string "8 word" bytes
  | CallMapMessage string bytes bytes bytes
  | SubmitMultiSignedMessage string bytes bytes "bytes list"
  | CallSaveReactorState ReactorState
  | GoCommitRoutine string int
  | GoProgressRoutine
  | CloseQuitCh string

record run =
  reactor :: FnConsensusReactor
  effects :: "event list"
  panicked :: bool

definition returns :: "FnConsensusReactor \<Rightarrow> event list \<Rightarrow> run" where
  "returns f es = \<lparr>reactor = f, effects = es, panicked = False\<rparr>"

definition panics :: "FnConsensusReactor \<Rightarrow> event list \<Rightarrow> run" where
  "panics f es = \<lparr>reactor = f, effects = es, panicked = True\<rparr>"

subsection \<open>Construction\<close>

definition NewFnConsensusReactor ::
  "string \<Rightarrow> bytes \<Rightarrow> FnRegistry \<Rightarrow> ReactorConfig option \<Rightarrow> error + FnConsensusReactor" where
  "NewFnConsensusReactor cid pv reg c =
     (if \<not> IsValid c then Inl ErrInvalidReactorConfiguration
      else Inr \<lparr>connectedPeers = [], state = None, chainID = cid, fnRegistry = reg,
                privValidator = pv, commitRoutineQuitCh = {}, staticValidators = None,
                cfg = c\<rparr>)"

subsection \<open>Small helpers of the reactor\<close>

definition myAddress :: "FnConsensusReactor \<Rightarrow> bytes" where
  "myAddress f = privValidator f"

definition areWeValidator :: "FnConsensusReactor \<Rightarrow> ValidatorSet \<Rightarrow> bool \<times> int" where
  "areWeValidator f currentValidatorSet =
     (let validatorIndex = GetByAddress currentValidatorSet (myAddress f)
      in (validatorIndex \<noteq> - 1, validatorIndex))"

definition getValidatorSet :: "env \<Rightarrow> FnConsensusReactor \<Rightarrow> ValidatorSet" where
  "getValidatorSet e f =
     (case staticValidators f of None \<Rightarrow> tmValidators e | Some vals \<Rightarrow> vals)"

text \<open>\<open>hash.Hash.Write\<close> never returns an error, so neither does \<open>calculateMessageHash\<close>.\<close>

definition calculateMessageHash :: "env \<Rightarrow> bytes \<Rightarrow> bytes" where
  "calculateMessageHash e message = sha512 e message"

text \<open>Go's \<open>%\<close> on \<open>int64\<close>: the remainder of the division that truncates towards zero.\<close>

definition rem64 :: "int64 \<Rightarrow> int64 \<Rightarrow> int64" where
  "rem64 a b = word_of_int (sint a smod sint b)"

text \<open>A broadcast on a channel to the peers that satisfy \<open>P\<close>.\<close>

definition sendTo :: "(string \<Rightarrow> bool) \<Rightarrow> string list \<Rightarrow> 8 word \<Rightarrow> bytes \<Rightarrow> event list" where
  "sendTo P peers ch bs = map (\<lambda>p. Send p ch bs) (filter P peers)"

subsection \<open>OnStart\<close>

text \<open>The loop of \<open>OnStart\<close> over the registered FnIDs, on \<open>CurrentVoteSets\<close>.\<close>

fun OnStart_loop :: "int \<Rightarrow> string list \<Rightarrow> (string \<rightharpoonup> FnVoteSet) \<Rightarrow> (string \<rightharpoonup> FnVoteSet)" where
  "OnStart_loop t [] m = m"
| "OnStart_loop t (fnID # fnIDs) m =
     OnStart_loop t fnIDs
       (case m fnID of
          None \<Rightarrow> m
        | Some currentVoteState \<Rightarrow>
            if IsExpired t currentVoteState ExpiresIn then m(fnID := None) else m)"

text \<open>\<open>OnStart\<close> returns an error or nil; the run holds the reactor afterwards.\<close>

definition OnStart :: "env \<Rightarrow> FnConsensusReactor \<Rightarrow> error option \<times> run" where
  "OnStart e f =
     (case LoadReactorState e of
        Inl err \<Rightarrow> (Some err, returns f [])
      | Inr reactorState \<Rightarrow>
          (let st = reactorState\<lparr>CurrentVoteSets :=
                      OnStart_loop (now e) (GetAll (fnRegistry f)) (CurrentVoteSets reactorState)\<rparr>;
               f' = f\<lparr>state := Some st\<rparr>
           in case SaveReactorState e st of
                Some err \<Rightarrow> (Some err, returns f' [CallSaveReactorState st])
              | None \<Rightarrow> (None, returns f' [CallSaveReactorState st, GoProgressRoutine])))"

subsection \<open>Proposer rotation\<close>

definition getNextProposalInfo ::
  "env \<Rightarrow> string \<Rightarrow> ReactorState \<Rightarrow> ValidatorSet \<Rightarrow> ProposalInfo option" where
  "getNextProposalInfo e fnID st currentValidatorSet =
     (let currentProposalInfo = CurrentProposalInfo st fnID;
          nextProposalInfo = \<lparr>LastActiveValidators = [], CurrentTurn = 0\<rparr>
      in case PreviousMaj23VoteSets st fnID of
           None \<Rightarrow> None
         | Some lastMaj23VoteSet \<Rightarrow>
             if ValidatorsHash lastMaj23VoteSet \<noteq> vsHash e currentValidatorSet
             then Some (nextProposalInfo\<lparr>LastActiveValidators := map Address currentValidatorSet,
                                          CurrentTurn := 0\<rparr>)
             else
               (let lastMaj23ActiveValidators = ActiveValidators e lastMaj23VoteSet
                in case currentProposalInfo of
                     None \<Rightarrow>
                       Some (nextProposalInfo\<lparr>LastActiveValidators := lastMaj23ActiveValidators,
                                               CurrentTurn := 0\<rparr>)
                   | Some cpi \<Rightarrow>
                       if lastMaj23ActiveValidators \<noteq> LastActiveValidators cpi
                       then Some (nextProposalInfo\<lparr>LastActiveValidators := lastMaj23ActiveValidators,
                                                    CurrentTurn := 0\<rparr>)
                       else
                         (let turn = CurrentTurn cpi + 1
                          in Some (nextProposalInfo\<lparr>CurrentTurn :=
                               (if of_nat (length (LastActiveValidators nextProposalInfo)) \<le>s turn
                                then 0 else turn)\<rparr>))))"

subsection \<open>The progress routine, one FnID of one tick\<close>

text \<open>
  The body of the loop over the FnIDs in \<open>progressRoutine\<close>, on the state: the result is
  the state and whether the FnID is eligible for a proposal.
\<close>

definition progressRoutine_body ::
  "env \<Rightarrow> ValidatorSet \<Rightarrow> string \<Rightarrow> ReactorState \<Rightarrow> ReactorState \<times> bool" where
  "progressRoutine_body e currentValidators fnID st =
     (let eligible = (\<lambda>st1. (st1\<lparr>CurrentProposalInfo :=
                                (CurrentProposalInfo st1)
                                  (fnID := getNextProposalInfo e fnID st1 currentValidators)\<rparr>, True))
      in case CurrentVoteSets st fnID of
           None \<Rightarrow> eligible st
         | Some currentVoteState \<Rightarrow>
             if IsExpired (now e) currentVoteState ExpiresIn
             then eligible (st\<lparr>PreviousTimedOutVoteSets :=
                                (PreviousTimedOutVoteSets st)(fnID \<mapsto> currentVoteState),
                              CurrentVoteSets := (CurrentVoteSets st)(fnID := None)\<rparr>)
             else (st, False))"

subsection \<open>Creating a vote set and voting\<close>

text \<open>
  Modelled from the spec: reading a slot of a vote set, and writing the oracle signature
  of a slot; a slot that is not there reads as the default.
\<close>

definition slotOr :: "'a \<Rightarrow> 'a list \<Rightarrow> nat \<Rightarrow> 'a" where
  "slotOr d xs i = (if i < length xs then xs ! i else d)"

definition setOracleSignature :: "nat \<Rightarrow> bytes \<Rightarrow> FnVoteSet \<Rightarrow> FnVoteSet" where
  "setOracleSignature i sg vs =
     vs\<lparr>Payload := (Payload vs)\<lparr>Response := (Response (Payload vs))
          \<lparr>OracleSignatures := (OracleSignatures (Response (Payload vs)))[i := sg]\<rparr>\<rparr>\<rparr>"

text \<open>
  Modelled from the spec: \<open>NewFnExecutionRequest\<close>, whose code is not among the sources; a
  request can be made for a registered FnID only.
\<close>

definition NewFnExecutionRequest :: "string \<Rightarrow> FnRegistry \<Rightarrow> error + FnExecutionRequest" where
  "NewFnExecutionRequest fnID reg =
     (case registryGet reg fnID of
        None \<Rightarrow> Inl (ErrOther ''FnID is not registered'')
      | Some fn \<Rightarrow> Inr \<lparr>FnID = fnID\<rparr>)"

text \<open>
  Modelled from the spec: \<open>NewFnExecutionResponse\<close> and \<open>NewFnVotePayload\<close>, whose code is
  not among the sources. The response of a new vote set holds the hash and, at the
  proposer's index, its oracle signature; the other slots are empty. The payload pairs
  the request with the response.
\<close>

definition NewFnExecutionResponse ::
  "FnIndividualExecutionResponse \<Rightarrow> int \<Rightarrow> ValidatorSet \<Rightarrow> FnExecutionResponse" where
  "NewFnExecutionResponse r validatorIndex validators =
     \<lparr>Status = ind_Status r, Error = ind_Error r, Hash = ind_Hash r,
      OracleSignatures =
        (replicate (length validators) [])[nat validatorIndex := ind_OracleSignature r]\<rparr>"

definition NewFnVotePayload :: "FnExecutionRequest \<Rightarrow> FnExecutionResponse \<Rightarrow> FnVotePayload" where
  "NewFnVotePayload req resp = \<lparr>Request = req, Response = resp\<rparr>"

text \<open>
  Modelled from the spec: \<open>NewVoteSet\<close> (the spec's \<open>Create\<close>), whose code is not among
  the sources: empty vote slots, one per validator, the proposer's own Agree vote and
  its signature of the vote set; it fails when the signature cannot be produced.
\<close>

definition NewVoteSet ::
  "env \<Rightarrow> string \<Rightarrow> int64 \<Rightarrow> string \<Rightarrow> duration \<Rightarrow> int \<Rightarrow> bytes \<Rightarrow> FnVotePayload
     \<Rightarrow> ValidatorSet \<Rightarrow> ProposalInfo option \<Rightarrow> error + FnVoteSet" where
  "NewVoteSet e newID nonce cid expiresIn validatorIndex ctx payload validators proposalInfo =
     (if validatorIndex < 0 \<or> length validators \<le> nat validatorIndex
      then Inl (ErrOther ''validator index out of range'')
      else
        (let n = length validators;
             i = nat validatorIndex;
             vs = \<lparr>ID = newID, Nonce = nonce, ChainID = cid,
                   CreationTime = word_of_int (now e), VoteSetExpiresIn = expiresIn,
                   ValidatorsHash = vsHash e validators, ExecutionContext = ctx,
                   Payload = payload,
                   Votes = (replicate n Unvoted)[i := VoteTypeAgree],
                   ValidatorSignatures = replicate n [],
                   ProposalInfo = proposalInfo\<rparr>
         in case SignVote e vs i VoteTypeAgree of
              Inl err \<Rightarrow> Inl err
            | Inr sg \<Rightarrow> Inr (vs\<lparr>ValidatorSignatures := (ValidatorSignatures vs)[i := sg]\<rparr>)))"

text \<open>
  Modelled from the spec: \<open>AddVote\<close>, whose code is not among the sources. It fails
  when the nonce differs from the vote set's, when the validator has voted, or when the
  signature cannot be produced; otherwise it fills the slot, stores the signature and,
  for Agree, the oracle signature.
\<close>

definition AddVote ::
  "env \<Rightarrow> FnVoteSet \<Rightarrow> int64 \<Rightarrow> FnIndividualExecutionResponse \<Rightarrow> ValidatorSet \<Rightarrow> int
     \<Rightarrow> VoteType \<Rightarrow> error + FnVoteSet" where
  "AddVote e vs nonce resp validators ownIndex voteType =
     (if nonce \<noteq> Nonce vs then Inl (ErrOther ''nonce differs'')
      else if HaveWeAlreadySigned vs ownIndex then Inl (ErrOther ''already voted'')
      else if ownIndex < 0 \<or> length (Votes vs) \<le> nat ownIndex
      then Inl (ErrOther ''validator index out of range'')
      else
        (let i = nat ownIndex;
             voted = vs\<lparr>Votes := (Votes vs)[i := voteType]\<rparr>;
             filled = (if voteType = VoteTypeAgree
                       then setOracleSignature i (ind_OracleSignature resp) voted
                       else voted)
         in case SignVote e filled i voteType of
              Inl err \<Rightarrow> Inl err
            | Inr sg \<Rightarrow>
                Inr (filled\<lparr>ValidatorSignatures := (ValidatorSignatures filled)[i := sg]\<rparr>)))"

text \<open>
  Modelled from the spec: \<open>Merge\<close>, whose code is not among the sources. It fails
  when the two vote sets differ in ID, FnID, nonce, chain, creation time, context,
  response hash or validators' hash. Otherwise every slot that is unvoted here, voted
  there and whose signature verifies is adopted; the result says whether a slot was
  adopted.
\<close>

definition adoptable :: "env \<Rightarrow> ValidatorSet \<Rightarrow> FnVoteSet \<Rightarrow> FnVoteSet \<Rightarrow> nat \<Rightarrow> bool" where
  "adoptable e vals theirs ours i =
     (i < length (Votes ours) \<and> slotOr Unvoted (Votes ours) i = Unvoted
      \<and> slotOr Unvoted (Votes theirs) i \<noteq> Unvoted \<and> VerifyVote e vals theirs i)"

definition adoptSlot :: "FnVoteSet \<Rightarrow> FnVoteSet \<Rightarrow> nat \<Rightarrow> FnVoteSet" where
  "adoptSlot theirs ours i =
     setOracleSignature i (slotOr [] (OracleSignatures (Response (Payload theirs))) i)
       (ours\<lparr>Votes := (Votes ours)[i := slotOr Unvoted (Votes theirs) i],
             ValidatorSignatures :=
               (ValidatorSignatures ours)[i := slotOr [] (ValidatorSignatures theirs) i]\<rparr>)"

definition sameSubject :: "FnVoteSet \<Rightarrow> FnVoteSet \<Rightarrow> bool" where
  "sameSubject ours theirs =
     (ID ours = ID theirs \<and> GetFnID ours = GetFnID theirs \<and> Nonce ours = Nonce theirs
      \<and> ChainID ours = ChainID theirs \<and> CreationTime ours = CreationTime theirs
      \<and> ExecutionContext ours = ExecutionContext theirs
      \<and> GetMessageHash ours = GetMessageHash theirs
      \<and> ValidatorsHash ours = ValidatorsHash theirs)"

definition Merge :: "env \<Rightarrow> FnVoteSet \<Rightarrow> ValidatorSet \<Rightarrow> FnVoteSet \<Rightarrow> error + bool \<times> FnVoteSet" where
  "Merge e ours vals theirs =
     (if sameSubject ours theirs
      then
        (let adopted = filter (adoptable e vals theirs ours) [0 ..< length (Votes ours)]
         in Inr (adopted \<noteq> [], fold (\<lambda>i vs. adoptSlot theirs vs i) adopted ours))
      else Inl (ErrOther ''vote sets differ''))"

subsection \<open>propose\<close>

text \<open>
  \<open>propose\<close>, after the \<open>Fn\<close> has produced the message: the part that runs under the
  state mutex, from the read of the current nonce on. \<open>sofar\<close> are the effects so far.
\<close>

definition propose_locked ::
  "env \<Rightarrow> FnConsensusReactor \<Rightarrow> string \<Rightarrow> ValidatorSet \<Rightarrow> ProposalInfo option \<Rightarrow> int
     \<Rightarrow> bytes \<Rightarrow> FnVotePayload \<Rightarrow> event list \<Rightarrow> run" where
  "propose_locked e f fnID currentValidators currentProposalInfo validatorIndex ctx
       votesetPayload sofar =
     (case state f of
        None \<Rightarrow> panics f sofar
      | Some st \<Rightarrow>
          (let currentNonce = (case CurrentNonces st fnID of None \<Rightarrow> 1 | Some n \<Rightarrow> n)
           in case randomID e of
                Inl err \<Rightarrow> returns f sofar
              | Inr newVoteSetID \<Rightarrow>
                  (case NewVoteSet e newVoteSetID currentNonce (chainID f) ExpiresIn
                          validatorIndex ctx votesetPayload currentValidators
                          currentProposalInfo of
                     Inl err \<Rightarrow> returns f sofar
                   | Inr voteSet \<Rightarrow>
                       (case cfg f of
                          None \<Rightarrow> panics f sofar
                        | Some c \<Rightarrow>
                            if IsAgree (FnVoteSigningThreshold c) currentValidators voteSet
                            then returns f
                                   (sofar @ [SubmitMultiSignedMessage fnID ctx
                                       (Hash (Response (Payload voteSet)))
                                       (OracleSignatures (Response (Payload voteSet)))])
                            else
                              (let st' = st\<lparr>CurrentVoteSets :=
                                              (CurrentVoteSets st)(fnID \<mapsto> voteSet)\<rparr>;
                                   f' = f\<lparr>state := Some st',
                                          commitRoutineQuitCh :=
                                            insert fnID (commitRoutineQuitCh f)\<rparr>;
                                   sofar' = sofar @
                                     [GoCommitRoutine fnID
                                        (sint (CreationTime voteSet) + ExpiresInForSync
                                           + CommitRoutineExecutionBuffer),
                                      CallSaveReactorState st']
                               in case SaveReactorState e st' of
                                    Some err \<Rightarrow> returns f' sofar'
                                  | None \<Rightarrow>
                                      (case Marshal e voteSet of
                                         Inl err \<Rightarrow> returns f' sofar'
                                       | Inr marshalledBytes \<Rightarrow>
                                           returns f'
                                             (sofar' @ sendTo (\<lambda>p. True) (connectedPeers f)
                                                FnVoteSetChannel marshalledBytes)))))))"

definition propose ::
  "env \<Rightarrow> FnConsensusReactor \<Rightarrow> string \<Rightarrow> Fn \<Rightarrow> ValidatorSet \<Rightarrow> ProposalInfo option \<Rightarrow> int
     \<Rightarrow> run" where
  "propose e f fnID fn currentValidators currentProposalInfo validatorIndex =
     (case PrepareContext fn of
        Inl err \<Rightarrow> returns f []
      | Inr (shouldExecuteFn, ctx) \<Rightarrow>
          if MaxContextSize < length ctx then returns f []
          else if \<not> shouldExecuteFn then returns f []
          else
            (case GetMessageAndSignature fn ctx of
               Inl err \<Rightarrow> returns f []
             | Inr (message, signature) \<Rightarrow>
                 (let hash = calculateMessageHash e message;
                      sofar = [CallMapMessage fnID ctx hash message]
                  in case MapMessage fn ctx hash message of
                       Some err \<Rightarrow> returns f sofar
                     | None \<Rightarrow>
                         (case NewFnExecutionRequest fnID (fnRegistry f) of
                            Inl err \<Rightarrow> returns f sofar
                          | Inr executionRequest \<Rightarrow>
                              (let executionResponse =
                                     NewFnExecutionResponse
                                       \<lparr>ind_Status = 0, ind_Error = [], ind_Hash = hash,
                                        ind_OracleSignature = signature\<rparr>
                                       validatorIndex currentValidators;
                                   votesetPayload =
                                     NewFnVotePayload executionRequest executionResponse
                               in propose_locked e f fnID currentValidators
                                    currentProposalInfo validatorIndex ctx votesetPayload
                                    sofar)))))"

subsection \<open>The commit routine\<close>

text \<open>The end of \<open>handleCommit\<close>: the state is saved, a failure of the write is logged.\<close>

definition handleCommit_save :: "FnConsensusReactor \<Rightarrow> ReactorState \<Rightarrow> event list \<Rightarrow> run" where
  "handleCommit_save f st' sofar =
     returns (f\<lparr>state := Some st'\<rparr>) (sofar @ [CallSaveReactorState st'])"

text \<open>The branch of a converged vote set, after the decision to submit.\<close>

definition handleCommit_converged ::
  "env \<Rightarrow> FnConsensusReactor \<Rightarrow> ReactorState \<Rightarrow> string \<Rightarrow> FnVoteSet \<Rightarrow> int64 \<Rightarrow> event list
     \<Rightarrow> run" where
  "handleCommit_converged e f st fnIDToMonitor currentVoteSet currentNonce sofar =
     handleCommit_save f
       (st\<lparr>CurrentNonces := (CurrentNonces st)(fnIDToMonitor \<mapsto> currentNonce + 1),
           PreviousValidatorSet := Some (getValidatorSet e f),
           PreviousMaj23VoteSets := (PreviousMaj23VoteSets st)(fnIDToMonitor \<mapsto> currentVoteSet),
           CurrentVoteSets := (CurrentVoteSets st)(fnIDToMonitor := None)\<rparr>)
       sofar"

definition handleCommit :: "env \<Rightarrow> FnConsensusReactor \<Rightarrow> string \<Rightarrow> run" where
  "handleCommit e f fnIDToMonitor =
     (case registryGet (fnRegistry f) fnIDToMonitor of
        None \<Rightarrow> returns f []
      | Some fn \<Rightarrow>
          (let currentValidators = getValidatorSet e f;
               areWe = fst (areWeValidator f currentValidators);
               ownValidatorIndex = snd (areWeValidator f currentValidators)
           in case state f of
                None \<Rightarrow> panics f []
              | Some st \<Rightarrow>
                  (let currentNonce =
                         (case CurrentNonces st fnIDToMonitor of None \<Rightarrow> 0 | Some n \<Rightarrow> n)
                   in if VoteSetIsValid e (chainID f) MaxContextSize True ExpiresIn
                           currentValidators (fnRegistry f) (CurrentVoteSets st fnIDToMonitor)
                      then
                        (case CurrentVoteSets st fnIDToMonitor of
                           None \<Rightarrow> panics f []
                         | Some currentVoteSet \<Rightarrow>
                             (case cfg f of
                                None \<Rightarrow> panics f []
                              | Some c \<Rightarrow>
                                  if HasConverged (FnVoteSigningThreshold c) currentValidators
                                       currentVoteSet
                                  then
                                    (if areWe \<and> IsAgree (FnVoteSigningThreshold c)
                                                  currentValidators currentVoteSet
                                     then
                                       (case GetAgreeVoteIndexForValidatorIndex currentVoteSet
                                               ownValidatorIndex of
                                          Inl err \<Rightarrow> returns f []
                                        | Inr agreeVoteIndex \<Rightarrow>
                                            if NumberOfAgreeVotes currentVoteSet = 0
                                            then panics f []
                                            else handleCommit_converged e f st fnIDToMonitor
                                                   currentVoteSet currentNonce
                                                   (if rem64 currentNonce
                                                         (word_of_int
                                                            (NumberOfAgreeVotes currentVoteSet))
                                                       = word_of_int agreeVoteIndex
                                                    then [SubmitMultiSignedMessage fnIDToMonitor
                                                            (ExecutionContext currentVoteSet)
                                                            (Hash (Response (Payload currentVoteSet)))
                                                            (OracleSignatures
                                                               (Response (Payload currentVoteSet)))]
                                                    else []))
                                     else handleCommit_converged e f st fnIDToMonitor
                                            currentVoteSet currentNonce [])
                                  else
                                    (let st' = st\<lparr>PreviousTimedOutVoteSets :=
                                                    (PreviousTimedOutVoteSets st)
                                                      (fnIDToMonitor \<mapsto> currentVoteSet),
                                                  CurrentVoteSets :=
                                                    (CurrentVoteSets st)(fnIDToMonitor := None)\<rparr>
                                     in case PreviousMaj23VoteSets st fnIDToMonitor of
                                          None \<Rightarrow> handleCommit_save f st' []
                                        | Some previousMaj23VoteSet \<Rightarrow>
                                            (case Marshal e previousMaj23VoteSet of
                                               Inl err \<Rightarrow> returns (f\<lparr>state := Some st'\<rparr>) []
                                             | Inr marshalledBytes \<Rightarrow>
                                                 handleCommit_save f st'
                                                   (sendTo (\<lambda>p. True) (connectedPeers f)
                                                      FnMaj23Channel marshalledBytes)))))
                      else returns f [])))"

subsection \<open>Comparing vote sets\<close>

text \<open>
  \<open>compareVoteSets\<close>: 1 when the remote vote set replaces the current one, 0 when the
  two are merged, -1 when the current one is kept. \<open>None\<close> is the panic of reading the
  threshold of a nil configuration.
\<close>

definition compareVoteSets ::
  "FnConsensusReactor \<Rightarrow> FnVoteSet \<Rightarrow> FnVoteSet option \<Rightarrow> int64 \<Rightarrow> ValidatorSet \<Rightarrow> int option" where
  "compareVoteSets f remoteVoteSet currentVoteSetP currentNonce currentValidators =
     (case currentVoteSetP of
        None \<Rightarrow>
          if currentNonce = Nonce remoteVoteSet then Some 1
          else
            (case cfg f of
               None \<Rightarrow> None
             | Some c \<Rightarrow>
                 if HasConverged (FnVoteSigningThreshold c) currentValidators remoteVoteSet
                 then Some 1 else Some (- 1))
      | Some currentVoteSet \<Rightarrow>
          if ID currentVoteSet = ID remoteVoteSet then Some 0
          else
            (case cfg f of
               None \<Rightarrow> None
             | Some c \<Rightarrow>
                 (let thr = FnVoteSigningThreshold c;
                      currentVoteSetMaj23Agree = IsAgree thr currentValidators currentVoteSet;
                      currentVoteSetMaj23Disagree = IsDisagree thr currentValidators currentVoteSet;
                      currentVoteSetMaj23 = (currentVoteSetMaj23Agree \<or> currentVoteSetMaj23Disagree);
                      remoteVoteSetMaj23Agree = IsAgree thr currentValidators remoteVoteSet;
                      remoteVoteSetMaj23Disagree = IsDisagree thr currentValidators remoteVoteSet;
                      remoteVoteSetMaj23 = (remoteVoteSetMaj23Agree \<or> remoteVoteSetMaj23Disagree);
                      currentNumberOfVotes = NumberOfVotes currentVoteSet;
                      currentNumberOfAgreeVotes = NumberOfAgreeVotes currentVoteSet;
                      remoteNumberOfVotes = NumberOfVotes remoteVoteSet;
                      remoteNumberOfAgreeVotes = NumberOfAgreeVotes remoteVoteSet
                  in if currentVoteSetMaj23 \<and> \<not> remoteVoteSetMaj23 then Some (- 1)
                     else if \<not> currentVoteSetMaj23 \<and> remoteVoteSetMaj23 then Some 1
                     else if \<not> currentVoteSetMaj23 \<and> \<not> remoteVoteSetMaj23 then Some (- 1)
                     else if currentVoteSetMaj23Agree \<and> \<not> remoteVoteSetMaj23Agree then Some (- 1)
                     else if \<not> currentVoteSetMaj23Agree \<and> remoteVoteSetMaj23Agree then Some 1
                     else if \<not> currentVoteSetMaj23Agree \<and> \<not> remoteVoteSetMaj23Agree
                     then Some (- 1)
                     else if remoteNumberOfVotes < currentNumberOfVotes then Some (- 1)
                     else if currentNumberOfVotes < remoteNumberOfVotes then Some 1
                     else if remoteNumberOfAgreeVotes < currentNumberOfAgreeVotes then Some (- 1)
                     else if currentNumberOfAgreeVotes < remoteNumberOfAgreeVotes then Some 1
                     else if CreationTime remoteVoteSet <s CreationTime currentVoteSet
                     then Some (- 1)
                     else if CreationTime currentVoteSet <s CreationTime remoteVoteSet then Some 1
                     else Some (- 1))))"

subsection \<open>The Maj23 handler\<close>

text \<open>
  The validator set that signed the remote vote set: the current one when the vote set
  is valid with it, else the previous one when there is one and the vote set is valid
  with it, else none (the vote set is ignored).
\<close>

definition validatorSetWhichSigned ::
  "env \<Rightarrow> FnConsensusReactor \<Rightarrow> ValidatorSet \<Rightarrow> ValidatorSet option \<Rightarrow> FnVoteSet
     \<Rightarrow> ValidatorSet option" where
  "validatorSetWhichSigned e f currentValidatorSet previousValidatorSet remoteMaj23VoteSet =
     (if VoteSetIsValid e (chainID f) MaxContextSize False ExpiresInForSync currentValidatorSet
           (fnRegistry f) (Some remoteMaj23VoteSet)
      then Some currentValidatorSet
      else
        (case previousValidatorSet of
           None \<Rightarrow> None
         | Some pvs \<Rightarrow>
             if VoteSetIsValid e (chainID f) MaxContextSize False ExpiresInForSync pvs
                  (fnRegistry f) (Some remoteMaj23VoteSet)
             then Some pvs else None))"

text \<open>The update of the state by a remote Maj23 vote set, and whether it is broadcast.\<close>

definition installMaj23 ::
  "ReactorState \<Rightarrow> FnVoteSet \<Rightarrow> ValidatorSet \<Rightarrow> ReactorState \<times> bool" where
  "installMaj23 st remoteMaj23VoteSet signedBy =
     (let remoteFnID = GetFnID remoteMaj23VoteSet;
          currentNonce = (case CurrentNonces st remoteFnID of None \<Rightarrow> 1 | Some n \<Rightarrow> n);
          stored = st\<lparr>PreviousMaj23VoteSets :=
                        (PreviousMaj23VoteSets st)(remoteFnID \<mapsto> remoteMaj23VoteSet),
                      PreviousValidatorSet := Some signedBy,
                      CurrentProposalInfo :=
                        (CurrentProposalInfo st)(remoteFnID := ProposalInfo remoteMaj23VoteSet)\<rparr>
      in if Nonce remoteMaj23VoteSet <s currentNonce
         then
           (if Nonce remoteMaj23VoteSet = currentNonce - 1
               \<and> PreviousMaj23VoteSets st remoteFnID = None
            then (stored, False) else (st, False))
         else
           (stored\<lparr>CurrentNonces :=
                     (CurrentNonces st)(remoteFnID \<mapsto> Nonce remoteMaj23VoteSet + 1)\<rparr>, True))"

definition handleMaj23VoteSetChannel ::
  "env \<Rightarrow> FnConsensusReactor \<Rightarrow> string \<Rightarrow> bytes \<Rightarrow> run" where
  "handleMaj23VoteSetChannel e f sender msgBytes =
     (case state f of
        None \<Rightarrow> panics f []
      | Some st \<Rightarrow>
          (case Unmarshal e msgBytes of
             Inl err \<Rightarrow> returns f []
           | Inr remoteMaj23VoteSet \<Rightarrow>
               (case validatorSetWhichSigned e f (getValidatorSet e f) (PreviousValidatorSet st)
                       remoteMaj23VoteSet of
                  None \<Rightarrow> returns f []
                | Some signedBy \<Rightarrow>
                    if IsExpired (now e) remoteMaj23VoteSet ExpiresIn
                    then
                      (case cfg f of
                         None \<Rightarrow> panics f []
                       | Some c \<Rightarrow>
                           if HasConverged (FnVoteSigningThreshold c) signedBy remoteMaj23VoteSet
                           then
                             (let st' = fst (installMaj23 st remoteMaj23VoteSet signedBy);
                                  needToBroadcast =
                                    snd (installMaj23 st remoteMaj23VoteSet signedBy);
                                  f' = f\<lparr>state := Some st'\<rparr>
                              in case SaveReactorState e st' of
                                   Some err \<Rightarrow> returns f' [CallSaveReactorState st']
                                 | None \<Rightarrow>
                                     if needToBroadcast
                                     then
                                       (case Marshal e remoteMaj23VoteSet of
                                          Inl err \<Rightarrow> returns f' [CallSaveReactorState st']
                                        | Inr marshalledBytes \<Rightarrow>
                                            returns f'
                                              (CallSaveReactorState st'
                                                 # sendTo (\<lambda>p. True) (connectedPeers f)
                                                     FnMaj23Channel marshalledBytes))
                                     else returns f' [CallSaveReactorState st'])
                           else returns f [])
                    else returns f [])))"

subsection \<open>The VoteSet handler\<close>

text \<open>
  The local variables of \<open>handleVoteSetChannelMessage\<close> that outlive its \<open>switch\<close>. The
  current vote set is a pointer to the entry of \<open>CurrentVoteSets\<close> for the FnID: the
  model keeps the two equal.
\<close>

record voteProgress =
  vp_reactor :: FnConsensusReactor
  vp_currentVoteSet :: "FnVoteSet option"
  vp_currentNonce :: int64
  didWeContribute :: bool
  hasOurVoteSetChanged :: bool
  vp_effects :: "event list"

text \<open>
  The \<open>switch\<close> on the result of \<open>compareVoteSets\<close>. \<open>Inl\<close> is a run that ended here.
  Closing the quit channel of an FnID that has none is the panic of closing a nil channel.
\<close>

definition voteSetSwitch ::
  "env \<Rightarrow> FnConsensusReactor \<Rightarrow> ReactorState \<Rightarrow> FnVoteSet \<Rightarrow> int64 \<Rightarrow> ValidatorSet
     \<Rightarrow> run + voteProgress" where
  "voteSetSwitch e f st remoteVoteSet currentNonce currentValidators =
     (let fnID = GetFnID remoteVoteSet;
          currentVoteSet = CurrentVoteSets st fnID;
          f0 = f\<lparr>state := Some st\<rparr>
      in case compareVoteSets f remoteVoteSet currentVoteSet currentNonce currentValidators of
           None \<Rightarrow> Inl (panics f0 [])
         | Some r \<Rightarrow>
             if r = 0 then
               (case currentVoteSet of
                  None \<Rightarrow> Inl (panics f0 [])
                | Some ours \<Rightarrow>
                    (case Merge e ours currentValidators remoteVoteSet of
                       Inl err \<Rightarrow> Inl (returns f0 [])
                     | Inr (changed, merged) \<Rightarrow>
                         Inr \<lparr>vp_reactor =
                                f\<lparr>state := Some (st\<lparr>CurrentVoteSets :=
                                                      (CurrentVoteSets st)(fnID \<mapsto> merged)\<rparr>)\<rparr>,
                              vp_currentVoteSet = Some merged,
                              vp_currentNonce =
                                (case CurrentNonces st fnID of None \<Rightarrow> 0 | Some n \<Rightarrow> n),
                              didWeContribute = changed,
                              hasOurVoteSetChanged = changed,
                              vp_effects = []\<rparr>))
             else if r = 1 then
               (if currentVoteSet = None \<or> fnID \<in> commitRoutineQuitCh f
                then
                  Inr \<lparr>vp_reactor =
                         f\<lparr>state := Some (st\<lparr>CurrentVoteSets :=
                                               (CurrentVoteSets st)(fnID \<mapsto> remoteVoteSet),
                                             CurrentNonces :=
                                               (CurrentNonces st)(fnID \<mapsto> Nonce remoteVoteSet),
                                             CurrentProposalInfo :=
                                               (CurrentProposalInfo st)
                                                 (fnID := ProposalInfo remoteVoteSet)\<rparr>),
                           commitRoutineQuitCh := insert fnID (commitRoutineQuitCh f)\<rparr>,
                       vp_currentVoteSet = Some remoteVoteSet,
                       vp_currentNonce = Nonce remoteVoteSet,
                       didWeContribute = False,
                       hasOurVoteSetChanged = True,
                       vp_effects =
                         (if currentVoteSet = None then [] else [CloseQuitCh fnID])
                         @ [GoCommitRoutine fnID
                              (sint (CreationTime remoteVoteSet) + ExpiresInForSync
                                 + CommitRoutineExecutionBuffer)]\<rparr>
                else Inl (panics f0 []))
             else if r = - 1 then
               (case currentVoteSet of
                  None \<Rightarrow> Inl (returns f0 [])
                | Some ours \<Rightarrow>
                    Inr \<lparr>vp_reactor = f0, vp_currentVoteSet = Some ours,
                         vp_currentNonce = currentNonce, didWeContribute = False,
                         hasOurVoteSetChanged = False, vp_effects = []\<rparr>)
             else
               Inr \<lparr>vp_reactor = f0, vp_currentVoteSet = currentVoteSet,
                    vp_currentNonce = currentNonce, didWeContribute = False,
                    hasOurVoteSetChanged = False, vp_effects = []\<rparr>)"

text \<open>The node's own vote, when it is a validator that has not signed the vote set.\<close>

definition storeCurrentVoteSet :: "string \<Rightarrow> FnVoteSet \<Rightarrow> FnConsensusReactor \<Rightarrow> FnConsensusReactor" where
  "storeCurrentVoteSet fnID vs f =
     f\<lparr>state := map_option
          (\<lambda>st. st\<lparr>CurrentVoteSets := (CurrentVoteSets st)(fnID \<mapsto> vs)\<rparr>) (state f)\<rparr>"

definition voteStep ::
  "env \<Rightarrow> string \<Rightarrow> ValidatorSet \<Rightarrow> voteProgress \<Rightarrow> run + voteProgress" where
  "voteStep e fnID currentValidators p =
     (let f = vp_reactor p;
          areWe = fst (areWeValidator f currentValidators);
          ownValidatorIndex = snd (areWeValidator f currentValidators)
      in if areWe then
           (case vp_currentVoteSet p of
              None \<Rightarrow> Inl (panics f (vp_effects p))
            | Some currentVoteSet \<Rightarrow>
                if HaveWeAlreadySigned currentVoteSet ownValidatorIndex then Inr p
                else
                  (case registryGet (fnRegistry f) fnID of
                     None \<Rightarrow> Inl (panics f (vp_effects p))
                   | Some fn \<Rightarrow>
                       (case GetMessageAndSignature fn (ExecutionContext currentVoteSet) of
                          Inl err \<Rightarrow> Inl (returns f (vp_effects p))
                        | Inr (message, signature) \<Rightarrow>
                            (let hash = calculateMessageHash e message;
                                 areWeAgreed = (GetMessageHash currentVoteSet = hash);
                                 sofar = vp_effects p
                                   @ [CallMapMessage fnID (ExecutionContext currentVoteSet)
                                        hash message]
                             in case MapMessage fn (ExecutionContext currentVoteSet) hash
                                       message of
                                  Some err \<Rightarrow> Inl (returns f sofar)
                                | None \<Rightarrow>
                                    (case AddVote e currentVoteSet (vp_currentNonce p)
                                            \<lparr>ind_Status = 0, ind_Error = [], ind_Hash = hash,
                                             ind_OracleSignature =
                                               (if areWeAgreed then signature else [])\<rparr>
                                            currentValidators ownValidatorIndex
                                            (if areWeAgreed then VoteTypeAgree
                                             else VoteTypeDisAgree) of
                                       Inl err \<Rightarrow> Inl (returns f sofar)
                                     | Inr voted \<Rightarrow>
                                         Inr (p\<lparr>vp_reactor := storeCurrentVoteSet fnID voted f,
                                                vp_currentVoteSet := Some voted,
                                                didWeContribute := True,
                                                hasOurVoteSetChanged := True,
                                                vp_effects := sofar\<rparr>))))))
         else Inr p)"

text \<open>The gossip at the end of the handler.\<close>

definition gossipStep :: "env \<Rightarrow> string \<Rightarrow> voteProgress \<Rightarrow> run" where
  "gossipStep e sender p =
     (if hasOurVoteSetChanged p then
        (case vp_currentVoteSet p of
           None \<Rightarrow> panics (vp_reactor p) (vp_effects p)
         | Some currentVoteSet \<Rightarrow>
             (case Marshal e currentVoteSet of
                Inl err \<Rightarrow> returns (vp_reactor p) (vp_effects p)
              | Inr marshalledBytes \<Rightarrow>
                  returns (vp_reactor p)
                    (vp_effects p
                     @ sendTo (\<lambda>peerID. \<not> (\<not> didWeContribute p \<and> peerID = sender))
                         (connectedPeers (vp_reactor p)) FnVoteSetChannel marshalledBytes)))
      else returns (vp_reactor p) (vp_effects p))"

definition handleVoteSetChannelMessage ::
  "env \<Rightarrow> FnConsensusReactor \<Rightarrow> string \<Rightarrow> bytes \<Rightarrow> run" where
  "handleVoteSetChannelMessage e f sender msgBytes =
     (let currentValidators = getValidatorSet e f
      in case Unmarshal e msgBytes of
           Inl err \<Rightarrow> returns f []
         | Inr remoteVoteSet \<Rightarrow>
             if VoteSetIsValid e (chainID f) MaxContextSize True ExpiresInForSync
                  currentValidators (fnRegistry f) (Some remoteVoteSet)
             then
               (case state f of
                  None \<Rightarrow> panics f []
                | Some st0 \<Rightarrow>
                    (let fnID = GetFnID remoteVoteSet;
                         currentNonce =
                           (case CurrentNonces st0 fnID of None \<Rightarrow> 1 | Some n \<Rightarrow> n);
                         st = (case CurrentNonces st0 fnID of
                                 None \<Rightarrow> st0\<lparr>CurrentNonces := (CurrentNonces st0)(fnID \<mapsto> 1)\<rparr>
                               | Some n \<Rightarrow> st0)
                     in if currentNonce \<noteq> Nonce remoteVoteSet
                           \<and> Nonce remoteVoteSet <s currentNonce
                        then returns (f\<lparr>state := Some st\<rparr>) []
                        else
                          (case voteSetSwitch e f st remoteVoteSet currentNonce
                                  currentValidators of
                             Inl r \<Rightarrow> r
                           | Inr p \<Rightarrow>
                               (case voteStep e fnID currentValidators p of
                                  Inl r \<Rightarrow> r
                                | Inr p' \<Rightarrow> gossipStep e sender p'))))
             else returns f [])"

subsection \<open>Observing a run\<close>

fun isSubmit :: "string \<Rightarrow> event \<Rightarrow> bool" where
  "isSubmit fnID (SubmitMultiSignedMessage g ctx h sigs) = (g = fnID)"
| "isSubmit fnID _ = False"

text \<open>The run called \<open>SubmitMultiSignedMessage\<close> of the \<open>Fn\<close> registered for the FnID.\<close>

definition submits :: "run \<Rightarrow> string \<Rightarrow> bool" where
  "submits r fnID = (filter (isSubmit fnID) (effects r) \<noteq> [])"

text \<open>The entry of a map of the reactor's state for an FnID, after a run.\<close>

definition after :: "(ReactorState \<Rightarrow> string \<rightharpoonup> 'a) \<Rightarrow> run \<Rightarrow> string \<Rightarrow> 'a option" where
  "after field r fnID =
     (case state (reactor r) of None \<Rightarrow> None | Some st \<Rightarrow> field st fnID)"

fun isSave :: "event \<Rightarrow> bool" where
  "isSave (CallSaveReactorState st) = True"
| "isSave _ = False"

text \<open>The run had no effect but writes of the reactor's state.\<close>

definition onlySaves :: "run \<Rightarrow> bool" where
  "onlySaves r = list_all isSave (effects r)"

fun isSend :: "event \<Rightarrow> bool" where
  "isSend (Send p ch bs) = True"
| "isSend _ = False"

text \<open>The messages the run sent to peers.\<close>

definition sent :: "run \<Rightarrow> event list" where
  "sent r = filter isSend (effects r)"

subsection \<open>The tie-break as the specification words it\<close>

text \<open>
  The rule of the specification for two vote sets that both meet the threshold, both or
  neither with Agree: more total votes win, then more Agree votes, then the older
  \<open>CreationTime\<close>; on an exact tie the local vote set is kept. The result is read as
  that of \<open>compareVoteSets\<close>: 1 when the remote vote set wins, -1 when the local one is
  kept.
\<close>

definition tieBreak_spec :: "FnVoteSet \<Rightarrow> FnVoteSet \<Rightarrow> int" where
  "tieBreak_spec remoteVoteSet currentVoteSet =
     (if NumberOfVotes currentVoteSet < NumberOfVotes remoteVoteSet then 1
      else if NumberOfVotes remoteVoteSet < NumberOfVotes currentVoteSet then - 1
      else if NumberOfAgreeVotes currentVoteSet < NumberOfAgreeVotes remoteVoteSet then 1
      else if NumberOfAgreeVotes remoteVoteSet < NumberOfAgreeVotes currentVoteSet then - 1
      else if CreationTime remoteVoteSet <s CreationTime currentVoteSet then 1
      else - 1)"

subsection \<open>Concrete inputs\<close>

text \<open>
  A small network for the examples: validators of equal power with the addresses 1, 2,
  3, ..., the FnID \<open>f\<close>, and collaborators that accept every vote set that is there, sign
  with a fixed signature and encode a vote set by its votes.
\<close>

definition ex_validator :: "nat \<Rightarrow> Validator" where
  "ex_validator i = \<lparr>Address = [of_nat i], VotingPower = 10\<rparr>"

definition ex_vals3 :: ValidatorSet where
  "ex_vals3 = [ex_validator 1, ex_validator 2, ex_validator 3]"

definition ex_vals4 :: ValidatorSet where
  "ex_vals4 = [ex_validator 1, ex_validator 2, ex_validator 3, ex_validator 4]"

definition ex_voteSet :: "string \<Rightarrow> int64 \<Rightarrow> int64 \<Rightarrow> VoteType list \<Rightarrow> FnVoteSet" where
  "ex_voteSet i n t votes =
     \<lparr>ID = i, Nonce = n, ChainID = ''chain'', CreationTime = t, VoteSetExpiresIn = ExpiresIn,
      ValidatorsHash = [7], ExecutionContext = [5],
      Payload = \<lparr>Request = \<lparr>FnID = ''f''\<rparr>,
                 Response = \<lparr>Status = 0, Error = [], Hash = [0xAA],
                             OracleSignatures =
                               map (\<lambda>v. if v = VoteTypeAgree then [0xBB] else []) votes\<rparr>\<rparr>,
      Votes = votes, ValidatorSignatures = map (\<lambda>v. if v = Unvoted then [] else [9]) votes,
      ProposalInfo = None\<rparr>"

definition ex_encode :: "FnVoteSet \<Rightarrow> bytes" where
  "ex_encode vs =
     map (\<lambda>v. case v of Unvoted \<Rightarrow> 0 | VoteTypeAgree \<Rightarrow> 1 | VoteTypeDisAgree \<Rightarrow> 2) (Votes vs)"

definition ex_fn :: Fn where
  "ex_fn = \<lparr>PrepareContext = Inr (True, [5]),
            GetMessageAndSignature = (\<lambda>ctx. Inr ([0xAA], [0xBB])),
            MapMessage = (\<lambda>ctx hash message. None)\<rparr>"

definition ex_env :: env where
  "ex_env =
     \<lparr>now = 141, tmValidators = ex_vals3, vsHash = (\<lambda>vals. [7]), sha512 = (\<lambda>m. m),
      randomID = Inr ''b'',
      VoteSetIsValid = (\<lambda>cid maxContext checkExpiration period vals reg v. v \<noteq> None),
      Marshal = (\<lambda>vs. Inr (ex_encode vs)),
      Unmarshal = (\<lambda>bs. Inl (ErrOther ''not a vote set'')),
      ActiveValidators = (\<lambda>vs. [[1], [2], [3]]),
      SignVote = (\<lambda>vs i v. Inr [9]),
      VerifyVote = (\<lambda>vals vs i. True),
      LoadReactorState = Inl (ErrOther ''no state''),
      SaveReactorState = (\<lambda>st. None)\<rparr>"

definition ex_state :: ReactorState where
  "ex_state =
     \<lparr>CurrentVoteSets = Map.empty, PreviousMaj23VoteSets = Map.empty,
      PreviousTimedOutVoteSets = Map.empty, CurrentNonces = Map.empty,
      CurrentProposalInfo = Map.empty, PreviousValidatorSet = None\<rparr>"

text \<open>The reactor of the validator with address \<open>a\<close>, with a threshold and a state.\<close>

definition ex_reactor :: "nat \<Rightarrow> SigningThreshold \<Rightarrow> ReactorState \<Rightarrow> FnConsensusReactor" where
  "ex_reactor a thr st =
     \<lparr>connectedPeers = [''p1'', ''p2''], state = Some st, chainID = ''chain'',
      fnRegistry = [(''f'', ex_fn)], privValidator = [of_nat a],
      commitRoutineQuitCh = {''f''}, staticValidators = None,
      cfg = Some \<lparr>OverrideValidatorSet = [], FnVoteSigningThreshold = thr\<rparr>\<rparr>"

text \<open>A state whose current vote set for \<open>f\<close> holds the given votes at the given nonce.\<close>

definition ex_commit_state :: "int64 \<Rightarrow> VoteType list \<Rightarrow> ReactorState" where
  "ex_commit_state n votes =
     ex_state\<lparr>CurrentVoteSets := [''f'' \<mapsto> ex_voteSet ''a'' n 100 votes],
              CurrentNonces := [''f'' \<mapsto> n]\<rparr>"

text \<open>The collaborators when the bytes received decode to the given vote set.\<close>

definition ex_env_receiving :: "FnVoteSet \<Rightarrow> env" where
  "ex_env_receiving vs = ex_env\<lparr>Unmarshal := (\<lambda>bs. Inr vs)\<rparr>"

text \<open>A state that holds nothing but the nonce of \<open>f\<close>.\<close>

definition ex_nonce_state :: "int64 \<Rightarrow> ReactorState" where
  "ex_nonce_state n = ex_state\<lparr>CurrentNonces := [''f'' \<mapsto> n]\<rparr>"

text \<open>The collaborators when the database holds the given state.\<close>

definition ex_env_loading :: "ReactorState \<Rightarrow> env" where
  "ex_env_loading st = ex_env\<lparr>LoadReactorState := Inr st\<rparr>"

text \<open>
  An \<open>Fn\<close> whose \<open>GetMessageAndSignature\<close> returns an error, and the reactor of the
  validator with address \<open>a\<close> that has this \<open>Fn\<close> registered for \<open>f\<close>.
\<close>

definition ex_fn_failing :: Fn where
  "ex_fn_failing = ex_fn\<lparr>GetMessageAndSignature := (\<lambda>ctx. Inl (ErrOther ''no message''))\<rparr>"

definition ex_reactor_failing ::
  "nat \<Rightarrow> SigningThreshold \<Rightarrow> ReactorState \<Rightarrow> FnConsensusReactor" where
  "ex_reactor_failing a thr st = (ex_reactor a thr st)\<lparr>fnRegistry := [(''f'', ex_fn_failing)]\<rparr>"

section \<open>Properties\<close>

text \<open>The definitions of the concrete inputs.\<close>


lemmas ex_defs = ex_env_def ex_env_receiving_def ex_env_loading_def ex_nonce_state_def ex_reactor_def ex_commit_state_def ex_state_def ex_voteSet_def
  ex_vals3_def ex_vals4_def ex_validator_def ex_fn_def


lemmas threshold_defs = HasConverged_def IsAgree_def IsDisagree_def meetsThreshold_def
  TotalVotingPower_def Maj23SigningThreshold_def AllSigningThreshold_def




lemmas handler_defs = handleVoteSetChannelMessage_def voteSetSwitch_def compareVoteSets_def
  voteStep_def gossipStep_def Merge_def sameSubject_def adoptable_def adoptSlot_def slotOr_def
  setOracleSignature_def AddVote_def HaveWeAlreadySigned_def storeCurrentVoteSet_def
  getValidatorSet_def areWeValidator_def myAddress_def registryGet_def calculateMessageHash_def
  GetFnID_def GetMessageHash_def sendTo_def sent_def after_def returns_def panics_def
  FnVoteSetChannel_def MaxContextSize_def


subsection \<open>Auxiliary facts: the branches of the commit routine\<close>


lemma handleCommit_not_converged:
  assumes "registryGet (fnRegistry f) fnID = Some fn"
    and "state f = Some st"
    and "cfg f = Some c"
    and "CurrentVoteSets st fnID = Some cvs"
    and "VoteSetIsValid e (chainID f) MaxContextSize True ExpiresIn (getValidatorSet e f)
           (fnRegistry f) (Some cvs)"
    and "\<not> HasConverged (FnVoteSigningThreshold c) (getValidatorSet e f) cvs"
    and "PreviousMaj23VoteSets st fnID = None"
  shows "handleCommit e f fnID =
           handleCommit_save f
             (st\<lparr>PreviousTimedOutVoteSets := (PreviousTimedOutVoteSets st)(fnID \<mapsto> cvs),
                 CurrentVoteSets := (CurrentVoteSets st)(fnID := None)\<rparr>) []"
  using assms by (simp add: handleCommit_def Let_def)

lemma handleCommit_no_agree:
  assumes "registryGet (fnRegistry f) fnID = Some fn"
    and "state f = Some st"
    and "cfg f = Some c"
    and "CurrentVoteSets st fnID = Some cvs"
    and "VoteSetIsValid e (chainID f) MaxContextSize True ExpiresIn (getValidatorSet e f)
           (fnRegistry f) (Some cvs)"
    and "HasConverged (FnVoteSigningThreshold c) (getValidatorSet e f) cvs"
    and "\<not> (fst (areWeValidator f (getValidatorSet e f))
            \<and> IsAgree (FnVoteSigningThreshold c) (getValidatorSet e f) cvs)"
  shows "handleCommit e f fnID =
           handleCommit_converged e f st fnID cvs
             (case CurrentNonces st fnID of None \<Rightarrow> 0 | Some n \<Rightarrow> n) []"
  using assms by (auto simp add: handleCommit_def Let_def)

lemma filter_take_less:
  assumes "n < length xs" and "P (xs ! n)"
  shows "length (filter P (take n xs)) < length (filter P xs)"
proof -
  have "xs = take n xs @ (xs ! n) # drop (Suc n) xs"
    using assms(1) by (rule id_take_nth_drop)
  then have "filter P xs = filter P (take n xs) @ filter P ((xs ! n) # drop (Suc n) xs)"
    by (metis filter_append)
  with assms(2) show ?thesis by simp
qed

lemma rank_agree_votes:
  assumes "GetAgreeVoteIndexForValidatorIndex cvs i = Inr r"
  shows "0 \<le> r \<and> r < NumberOfAgreeVotes cvs"
proof -
  from assms have i: "nat i < length (Votes cvs)" "Votes cvs ! nat i = VoteTypeAgree"
    and r: "r = int (length (filter (\<lambda>v. v = VoteTypeAgree) (take (nat i) (Votes cvs))))"
    by (auto simp: GetAgreeVoteIndexForValidatorIndex_def split: if_splits)
  have "length (filter (\<lambda>v. v = VoteTypeAgree) (take (nat i) (Votes cvs)))
      < length (filter (\<lambda>v. v = VoteTypeAgree) (Votes cvs))"
    using i by (intro filter_take_less) simp_all
  then show ?thesis using r by (simp add: NumberOfAgreeVotes_def)
qed

lemma handleCommit_agree:
  assumes "registryGet (fnRegistry f) fnID = Some fn"
    and "state f = Some st"
    and "cfg f = Some c"
    and "CurrentVoteSets st fnID = Some cvs"
    and "VoteSetIsValid e (chainID f) MaxContextSize True ExpiresIn (getValidatorSet e f)
           (fnRegistry f) (Some cvs)"
    and "HasConverged (FnVoteSigningThreshold c) (getValidatorSet e f) cvs"
    and "fst (areWeValidator f (getValidatorSet e f))"
    and "IsAgree (FnVoteSigningThreshold c) (getValidatorSet e f) cvs"
    and "GetAgreeVoteIndexForValidatorIndex cvs (snd (areWeValidator f (getValidatorSet e f))) = Inr r"
  shows "handleCommit e f fnID =
           handleCommit_converged e f st fnID cvs
             (case CurrentNonces st fnID of None \<Rightarrow> 0 | Some n \<Rightarrow> n)
             (if rem64 (case CurrentNonces st fnID of None \<Rightarrow> 0 | Some n \<Rightarrow> n)
                   (word_of_int (NumberOfAgreeVotes cvs)) = word_of_int r
              then [SubmitMultiSignedMessage fnID (ExecutionContext cvs)
                      (Hash (Response (Payload cvs))) (OracleSignatures (Response (Payload cvs)))]
              else [])"
proof -
  have "NumberOfAgreeVotes cvs \<noteq> 0" using rank_agree_votes [OF assms(9)] by simp
  then show ?thesis using assms by (simp add: handleCommit_def Let_def)
qed

lemma handleCommit_rank_error:
  assumes "registryGet (fnRegistry f) fnID = Some fn"
    and "state f = Some st"
    and "cfg f = Some c"
    and "CurrentVoteSets st fnID = Some cvs"
    and "VoteSetIsValid e (chainID f) MaxContextSize True ExpiresIn (getValidatorSet e f)
           (fnRegistry f) (Some cvs)"
    and "HasConverged (FnVoteSigningThreshold c) (getValidatorSet e f) cvs"
    and "fst (areWeValidator f (getValidatorSet e f))"
    and "IsAgree (FnVoteSigningThreshold c) (getValidatorSet e f) cvs"
    and "GetAgreeVoteIndexForValidatorIndex cvs (snd (areWeValidator f (getValidatorSet e f))) = Inl err"
  shows "handleCommit e f fnID = returns f []"
  using assms by (simp add: handleCommit_def Let_def)


lemma smod_nonneg: "0 \<le> a \<Longrightarrow> 0 < n \<Longrightarrow> a smod n = a mod (n::int)"
  by (cases "a = 0") (simp_all add: signed_modulo_int_def)

lemma sint_of_int_small: "0 \<le> n \<Longrightarrow> n < 2 ^ 63 \<Longrightarrow> sint (word_of_int n :: int64) = n"
  by (simp add: sint_sbintrunc' signed_take_bit_int_eq_self)

lemma rem64_nonneg:
  assumes "0 \<le> sint a" and "0 < n" and "n < 2 ^ 63" and "0 \<le> r" and "r < n"
  shows "(rem64 a (word_of_int n) = word_of_int r) = (sint a mod n = r)"
proof -
  have n: "sint (word_of_int n :: int64) = n"
    using assms by (simp add: sint_of_int_small)
  have m: "0 \<le> sint a mod n" "sint a mod n < n"
    using assms by simp_all
  have big: "(2::int) ^ 63 < 2 ^ LENGTH(64)" by simp
  have "sint a mod n < n" using assms(2) by simp
  with assms(3) big have b1: "sint a mod n < 2 ^ LENGTH(64)" by linarith
  from assms(3,5) big have b2: "r < 2 ^ LENGTH(64)" by linarith
  note b = b1 b2
  have "(word_of_int (sint a mod n) = (word_of_int r :: int64)) = (sint a mod n = r)"
    using word_of_int_inj [where 'a = 64, of "sint a mod n" r] m(1) b assms(4) by blast
  then show ?thesis
    using assms by (simp add: rem64_def n smod_nonneg)
qed

lemma unique_rank:
  assumes "t < length (filter P xs)"
  shows "\<exists>!i. i < length xs \<and> P (xs ! i) \<and> length (filter P (take i xs)) = t"
  using assms
proof (induction xs arbitrary: t rule: rev_induct)
  case Nil
  then show ?case by simp
next
  case (snoc x xs)
  show ?case
  proof (cases "t < length (filter P xs)")
    case True
    from snoc.IH [OF True] obtain i
      where i: "i < length xs" "P (xs ! i)" "length (filter P (take i xs)) = t"
        and uniq: "\<And>j. j < length xs \<and> P (xs ! j) \<and> length (filter P (take j xs)) = t \<Longrightarrow> j = i"
      by (auto elim!: ex1E)
    show ?thesis
    proof (rule ex1I [of _ i])
      show "i < length (xs @ [x]) \<and> P ((xs @ [x]) ! i)
          \<and> length (filter P (take i (xs @ [x]))) = t"
        using i by (simp add: nth_append)
    next
      fix j
      assume j: "j < length (xs @ [x]) \<and> P ((xs @ [x]) ! j)
          \<and> length (filter P (take j (xs @ [x]))) = t"
      show "j = i"
      proof (cases "j < length xs")
        case True
        with j uniq [of j] show ?thesis by (simp add: nth_append)
      next
        case False
        with j have "j = length xs" by simp
        with j \<open>t < length (filter P xs)\<close> show ?thesis by simp
      qed
    qed
  next
    case False
    with snoc.prems have px: "P x" and t: "t = length (filter P xs)"
      by (auto split: if_splits)
    show ?thesis
    proof (rule ex1I [of _ "length xs"])
      show "length xs < length (xs @ [x]) \<and> P ((xs @ [x]) ! length xs)
          \<and> length (filter P (take (length xs) (xs @ [x]))) = t"
        using px t by simp
    next
      fix j
      assume j: "j < length (xs @ [x]) \<and> P ((xs @ [x]) ! j)
          \<and> length (filter P (take j (xs @ [x]))) = t"
      show "j = length xs"
      proof (rule ccontr)
        assume "j \<noteq> length xs"
        with j have jl: "j < length xs" by simp
        with j have "P (xs ! j)" by (simp add: nth_append)
        from filter_take_less [of j xs P] jl this j t show False by simp
      qed
    qed
  qed
qed

lemma GetByAddress_nonneg: "- 1 \<le> GetByAddress vals a"
  by (induction vals) (auto simp: Let_def)

lemma GetByAddress_absent: "(GetByAddress vals a = - 1) = (a \<notin> Address ` set vals)"
proof (induction vals)
  case Nil
  then show ?case by simp
next
  case (Cons v vals)
  from GetByAddress_nonneg [of vals a] have "GetByAddress vals a + 1 \<noteq> - 1" by simp
  with Cons show ?case by (auto simp: Let_def)
qed

lemma GetByAddress_nth:
  "distinct (map Address vals) \<Longrightarrow> i < length vals \<Longrightarrow> GetByAddress vals (Address (vals ! i)) = int i"
proof (induction vals arbitrary: i)
  case Nil
  then show ?case by simp
next
  case (Cons v vals)
  show ?case
  proof (cases i)
    case 0
    then show ?thesis by simp
  next
    case (Suc j)
    with Cons.prems have j: "j < length vals" and d: "distinct (map Address vals)"
      and ne: "Address v \<noteq> Address (vals ! j)"
      by auto
    from Cons.IH [OF d j] ne Suc show ?thesis by (simp add: Let_def)
  qed
qed


lemma submits_handleCommit_converged:
  "submits (handleCommit_converged e f st fnID cvs n evs) g = (filter (isSubmit g) evs \<noteq> [])"
  by (simp add: submits_def handleCommit_converged_def handleCommit_save_def returns_def)

lemma submits_returns_Nil: "\<not> submits (returns f []) g"
  by (simp add: submits_def returns_def)

lemma handleCommit_submits_iff:
  assumes reg: "registryGet (fnRegistry f) fnID = Some fn"
    and st: "state f = Some st"
    and cfg: "cfg f = Some c"
    and cvs: "CurrentVoteSets st fnID = Some cvs"
    and valid: "VoteSetIsValid e (chainID f) MaxContextSize True ExpiresIn (getValidatorSet e f)
           (fnRegistry f) (Some cvs)"
    and conv: "HasConverged (FnVoteSigningThreshold c) (getValidatorSet e f) cvs"
    and nonce: "(case CurrentNonces st fnID of None \<Rightarrow> 0 | Some n \<Rightarrow> n) = nonce"
    and nonneg: "0 \<le>s nonce"
    and len: "length (Votes cvs) < 2 ^ 63"
  shows "submits (handleCommit e f fnID) fnID =
           (fst (areWeValidator f (getValidatorSet e f))
            \<and> IsAgree (FnVoteSigningThreshold c) (getValidatorSet e f) cvs
            \<and> GetAgreeVoteIndexForValidatorIndex cvs (snd (areWeValidator f (getValidatorSet e f)))
                = Inr (sint nonce mod NumberOfAgreeVotes cvs))"
proof (cases "fst (areWeValidator f (getValidatorSet e f))
            \<and> IsAgree (FnVoteSigningThreshold c) (getValidatorSet e f) cvs")
  case False
  from handleCommit_no_agree [OF reg st cfg cvs valid conv False] False
  show ?thesis by (auto simp add: submits_handleCommit_converged)
next
  case True
  show ?thesis
  proof (cases "GetAgreeVoteIndexForValidatorIndex cvs (snd (areWeValidator f (getValidatorSet e f)))")
    case (Inl err)
    from True have a: "fst (areWeValidator f (getValidatorSet e f))"
      and b: "IsAgree (FnVoteSigningThreshold c) (getValidatorSet e f) cvs" by simp_all
    from handleCommit_rank_error [OF reg st cfg cvs valid conv a b Inl] Inl
    show ?thesis by (simp add: submits_returns_Nil)
  next
    case (Inr r)
    from True have a: "fst (areWeValidator f (getValidatorSet e f))"
      and b: "IsAgree (FnVoteSigningThreshold c) (getValidatorSet e f) cvs" by simp_all
    from rank_agree_votes [OF Inr] have r: "0 \<le> r" "r < NumberOfAgreeVotes cvs" by simp_all
    have "NumberOfAgreeVotes cvs \<le> int (length (Votes cvs))"
      by (simp add: NumberOfAgreeVotes_def)
    with len have n: "0 < NumberOfAgreeVotes cvs" "NumberOfAgreeVotes cvs < 2 ^ 63"
      using r by simp_all
    from nonneg have s: "0 \<le> sint nonce" by (simp add: word_sle_eq)
    have "(rem64 nonce (word_of_int (NumberOfAgreeVotes cvs)) = word_of_int r)
        = (sint nonce mod NumberOfAgreeVotes cvs = r)"
      using s n r by (rule rem64_nonneg)
    with handleCommit_agree [OF reg st cfg cvs valid conv a b Inr] Inr True nonce
    show ?thesis by (auto simp add: submits_handleCommit_converged)
  qed
qed

lemma votedPower_none: "\<forall>v \<in> set votes. \<not> P v \<Longrightarrow> votedPower P votes vals = 0"
  by (induction P votes vals rule: votedPower.induct) simp_all

lemma TotalVotingPower_pos:
  "vals \<noteq> [] \<Longrightarrow> \<forall>v \<in> set vals. 0 < VotingPower v \<Longrightarrow> 0 < TotalVotingPower vals"
  unfolding TotalVotingPower_def
proof (induction vals)
  case Nil
  then show ?case by simp
next
  case (Cons v vals)
  then show ?case by (cases "vals = []") (simp_all add: add_pos_pos)
qed

lemma IsAgree_has_agree_vote:
  assumes "IsAgree thr vals cvs" and "vals \<noteq> []" and "\<forall>v \<in> set vals. 0 < VotingPower v"
  shows "0 < NumberOfAgreeVotes cvs"
proof (rule ccontr)
  assume "\<not> 0 < NumberOfAgreeVotes cvs"
  then have "filter (\<lambda>v. v = VoteTypeAgree) (Votes cvs) = []"
    by (simp add: NumberOfAgreeVotes_def)
  then have "\<forall>v \<in> set (Votes cvs). \<not> v = VoteTypeAgree"
    by (simp add: filter_empty_conv)
  then have "votedPower (\<lambda>v. v = VoteTypeAgree) (Votes cvs) vals = 0"
    by (rule votedPower_none)
  with assms(1) TotalVotingPower_pos [OF assms(2,3)] show False
    by (simp add: IsAgree_def meetsThreshold_def split: if_splits)
qed



subsection \<open>Auxiliary facts: ranks\<close>

lemma rank_of_index:
  assumes "i < length (Votes cvs)" and "0 \<le> m"
  shows "(GetAgreeVoteIndexForValidatorIndex cvs (int i) = Inr m)
       = (Votes cvs ! i = VoteTypeAgree
          \<and> length (filter (\<lambda>v. v = VoteTypeAgree) (take i (Votes cvs))) = nat m)"
  using assms by (auto simp: GetAgreeVoteIndexForValidatorIndex_def)

lemma ex1_cong_below:
  assumes "\<exists>!i. i < (n::nat) \<and> A i" and "\<And>i. i < n \<Longrightarrow> B i = A i"
  shows "\<exists>!i. i < n \<and> B i"
  using assms by (metis (no_types, lifting))


subsection \<open>Auxiliary facts: the state after a commit\<close>


lemma after_handleCommit_converged:
  "after CurrentNonces (handleCommit_converged e f st fnID cvs n evs) fnID = Some (n + 1)"
  "after PreviousMaj23VoteSets (handleCommit_converged e f st fnID cvs n evs) fnID = Some cvs"
  "after PreviousTimedOutVoteSets (handleCommit_converged e f st fnID cvs n evs) g
     = PreviousTimedOutVoteSets st g"
  "after CurrentVoteSets (handleCommit_converged e f st fnID cvs n evs) fnID = None"
  "effects (handleCommit_converged e f st fnID cvs n evs) = evs @ [CallSaveReactorState
       (st\<lparr>CurrentNonces := (CurrentNonces st)(fnID \<mapsto> n + 1),
           PreviousValidatorSet := Some (getValidatorSet e f),
           PreviousMaj23VoteSets := (PreviousMaj23VoteSets st)(fnID \<mapsto> cvs),
           CurrentVoteSets := (CurrentVoteSets st)(fnID := None)\<rparr>)]"
  "panicked (handleCommit_converged e f st fnID cvs n evs) = False"
  by (simp_all add: after_def handleCommit_converged_def handleCommit_save_def returns_def)

lemma two_agree_one_disagree:
  assumes "length votes = 3"
    and "length (filter (\<lambda>v. v = VoteTypeAgree) votes) = 2"
    and "length (filter (\<lambda>v. v \<noteq> Unvoted) votes) = 3"
    and "VotingPower v1 = p" and "VotingPower v2 = p" and "VotingPower v3 = p"
  shows "votedPower (\<lambda>v. v = VoteTypeAgree) votes [v1, v2, v3] = 2 * p
       \<and> votedPower (\<lambda>v. v \<noteq> Unvoted) votes [v1, v2, v3] = 3 * p"
proof -
  from assms(1) obtain a b c where v: "votes = [a, b, c]"
    by (auto simp: length_Suc_conv numeral_3_eq_3)
  show ?thesis
    using assms(2-) unfolding v
    by (cases a; cases b; cases c) simp_all
qed

subsection \<open>Auxiliary facts: the nonce after a run of the commit routine\<close>





subsection \<open>Auxiliary facts: the Maj23 handler\<close>


lemma sent_sendTo: "filter isSend (sendTo P peers ch bs) = sendTo P peers ch bs"
  by (induction peers) (simp_all add: sendTo_def)

lemma handleMaj23VoteSetChannel_accepted:
  assumes st: "state f = Some st"
    and dec: "Unmarshal e msgBytes = Inr remote"
    and signed: "validatorSetWhichSigned e f (getValidatorSet e f) (PreviousValidatorSet st) remote
                   = Some signedBy"
    and exp: "IsExpired (now e) remote ExpiresIn"
    and cfg: "cfg f = Some c"
    and conv: "HasConverged (FnVoteSigningThreshold c) signedBy remote"
    and save: "SaveReactorState e (fst (installMaj23 st remote signedBy)) = None"
    and enc: "Marshal e remote = Inr bs"
  shows "handleMaj23VoteSetChannel e f sender msgBytes =
           returns (f\<lparr>state := Some (fst (installMaj23 st remote signedBy))\<rparr>)
             (CallSaveReactorState (fst (installMaj23 st remote signedBy))
              # (if snd (installMaj23 st remote signedBy)
                 then sendTo (\<lambda>p. True) (connectedPeers f) FnMaj23Channel bs else []))"
  using assms by (simp add: handleMaj23VoteSetChannel_def Let_def)




lemma ex_maj23_hyps:
  "Unmarshal (ex_env_receiving vs) bs = Inr vs"
  "validatorSetWhichSigned (ex_env_receiving vs) (ex_reactor a thr st)
     (getValidatorSet (ex_env_receiving vs) (ex_reactor a thr st)) pvs vs = Some ex_vals3"
  "cfg (ex_reactor a thr st) = Some \<lparr>OverrideValidatorSet = [], FnVoteSigningThreshold = thr\<rparr>"
  "state (ex_reactor a thr st) = Some st"
  "SaveReactorState (ex_env_receiving vs) st' = None"
  "Marshal (ex_env_receiving vs) vs = Inr (ex_encode vs)"
  "connectedPeers (ex_reactor a thr st) = [''p1'', ''p2'']"
  by (simp_all add: ex_env_receiving_def ex_env_def ex_reactor_def validatorSetWhichSigned_def
      getValidatorSet_def)


subsection \<open>Auxiliary facts: the VoteSet handler\<close>


lemma handleVoteSetChannelMessage_phases:
  assumes dec: "Unmarshal e msgBytes = Inr remote"
    and vals: "getValidatorSet e f = vals"
    and valid: "VoteSetIsValid e (chainID f) MaxContextSize True ExpiresInForSync vals
                  (fnRegistry f) (Some remote)"
    and st: "state f = Some st0"
    and fnID: "GetFnID remote = fnID"
    and nonce: "(case CurrentNonces st0 fnID of None \<Rightarrow> 1 | Some n \<Rightarrow> n) = currentNonce"
    and fresh: "\<not> Nonce remote <s currentNonce"
    and st': "st = st0\<lparr>CurrentNonces := (CurrentNonces st0)(fnID \<mapsto> currentNonce)\<rparr>"
  shows "handleVoteSetChannelMessage e f sender msgBytes =
           (case voteSetSwitch e f st remote currentNonce vals of
              Inl r \<Rightarrow> r
            | Inr p \<Rightarrow>
                (case voteStep e fnID vals p of
                   Inl r \<Rightarrow> r
                 | Inr p' \<Rightarrow> gossipStep e sender p'))"
proof -
  have "(case CurrentNonces st0 fnID of
           None \<Rightarrow> st0\<lparr>CurrentNonces := (CurrentNonces st0)(fnID \<mapsto> 1)\<rparr>
         | Some n \<Rightarrow> st0) = st"
    using nonce st' by (auto simp: map_upd_triv split: option.splits)
  then show ?thesis
    using dec valid st nonce fresh
    unfolding vals [symmetric] fnID [symmetric]
    by (simp add: handleVoteSetChannelMessage_def Let_def)
qed

lemma sent_gossipStep:
  assumes "vp_currentVoteSet p = Some cvs" and "Marshal e cvs = Inr bs"
    and "filter isSend (vp_effects p) = []"
  shows "sent (gossipStep e sender p) =
           (if hasOurVoteSetChanged p
            then sendTo (\<lambda>peerID. didWeContribute p \<or> peerID \<noteq> sender)
                   (connectedPeers (vp_reactor p)) FnVoteSetChannel bs
            else [])"
proof -
  have "(\<lambda>peerID. \<not> (\<not> didWeContribute p \<and> peerID = sender))
      = (\<lambda>peerID. didWeContribute p \<or> peerID \<noteq> sender)"
    by auto
  then show ?thesis
    using assms by (simp add: gossipStep_def sent_def returns_def sent_sendTo)
qed


lemma voteSetSwitch_replace:
  assumes "compareVoteSets f remote (CurrentVoteSets st (GetFnID remote)) currentNonce vals = Some 1"
    and "CurrentVoteSets st (GetFnID remote) = None \<or> GetFnID remote \<in> commitRoutineQuitCh f"
  shows "\<exists>p. voteSetSwitch e f st remote currentNonce vals = Inr p
       \<and> vp_currentVoteSet p = Some remote \<and> vp_currentNonce p = Nonce remote
       \<and> \<not> didWeContribute p \<and> hasOurVoteSetChanged p
       \<and> filter isSend (vp_effects p) = []
       \<and> connectedPeers (vp_reactor p) = connectedPeers f
       \<and> privValidator (vp_reactor p) = privValidator f
       \<and> fnRegistry (vp_reactor p) = fnRegistry f"
  using assms by (auto simp add: voteSetSwitch_def Let_def)

lemma voteSetSwitch_merge:
  assumes "compareVoteSets f remote (CurrentVoteSets st (GetFnID remote)) currentNonce vals = Some 0"
    and "CurrentVoteSets st (GetFnID remote) = Some ours"
    and "Merge e ours vals remote = Inr (changed, merged)"
  shows "\<exists>p. voteSetSwitch e f st remote currentNonce vals = Inr p
       \<and> vp_currentVoteSet p = Some merged
       \<and> didWeContribute p = changed \<and> hasOurVoteSetChanged p = changed
       \<and> filter isSend (vp_effects p) = []
       \<and> connectedPeers (vp_reactor p) = connectedPeers f
       \<and> privValidator (vp_reactor p) = privValidator f
       \<and> fnRegistry (vp_reactor p) = fnRegistry f"
  using assms by (auto simp add: voteSetSwitch_def Let_def)

lemma voteSetSwitch_keep:
  assumes "compareVoteSets f remote (CurrentVoteSets st (GetFnID remote)) currentNonce vals = Some (- 1)"
    and "CurrentVoteSets st (GetFnID remote) = Some ours"
  shows "\<exists>p. voteSetSwitch e f st remote currentNonce vals = Inr p
       \<and> vp_currentVoteSet p = Some ours
       \<and> \<not> didWeContribute p \<and> \<not> hasOurVoteSetChanged p
       \<and> filter isSend (vp_effects p) = []
       \<and> connectedPeers (vp_reactor p) = connectedPeers f
       \<and> privValidator (vp_reactor p) = privValidator f
       \<and> fnRegistry (vp_reactor p) = fnRegistry f"
  using assms by (auto simp add: voteSetSwitch_def Let_def)

lemma areWeValidator_cong:
  "privValidator g = privValidator f \<Longrightarrow> areWeValidator g vals = areWeValidator f vals"
  by (simp add: areWeValidator_def myAddress_def)

lemma voteStep_no_vote:
  assumes "areWeValidator (vp_reactor p) vals = (areWe, ownIndex)"
    and "vp_currentVoteSet p = Some cvs"
    and "\<not> (areWe \<and> \<not> HaveWeAlreadySigned cvs ownIndex)"
  shows "voteStep e fnID vals p = Inr p"
  using assms by (auto simp add: voteStep_def Let_def)

lemma connectedPeers_storeCurrentVoteSet:
  "connectedPeers (storeCurrentVoteSet fnID vs f) = connectedPeers f"
  by (simp add: storeCurrentVoteSet_def)

lemma voteStep_voted:
  assumes "areWeValidator (vp_reactor p) vals = (True, ownIndex)"
    and "vp_currentVoteSet p = Some cvs"
    and "\<not> HaveWeAlreadySigned cvs ownIndex"
    and "voteStep e fnID vals p = Inr p'"
  shows "didWeContribute p' \<and> hasOurVoteSetChanged p'
       \<and> filter isSend (vp_effects p') = filter isSend (vp_effects p)
       \<and> connectedPeers (vp_reactor p') = connectedPeers (vp_reactor p)"
  using assms
  by (auto simp add: voteStep_def Let_def connectedPeers_storeCurrentVoteSet
      split: option.splits sum.splits if_splits prod.splits)





lemma ex_receiving_hyps:
  "Unmarshal (ex_env_receiving vs) bs = Inr vs"
  "getValidatorSet (ex_env_receiving vs) (ex_reactor a thr st) = ex_vals3"
  "VoteSetIsValid (ex_env_receiving vs) cid m chk d vals reg (Some vs)"
  "Marshal (ex_env_receiving vs) v = Inr (ex_encode v)"
  "GetFnID (ex_voteSet i n t votes) = ''f''"
  "privValidator (ex_reactor a thr st) = [of_nat a]"
  by (simp_all add: ex_env_receiving_def ex_env_def ex_reactor_def getValidatorSet_def
      GetFnID_def ex_voteSet_def)


lemma voteStep_failed:
  assumes "voteStep e fnID vals p = Inl r"
  shows "reactor r = vp_reactor p
       \<and> filter isSend (effects r) = filter isSend (vp_effects p)"
  using assms
  by (auto simp add: voteStep_def Let_def returns_def panics_def
      split: option.splits sum.splits if_splits prod.splits)

lemma voteSetSwitch_stored:
  assumes "voteSetSwitch e f st remote currentNonce vals = Inr p"
  shows "filter isSend (vp_effects p) = []
       \<and> (case state (vp_reactor p) of None \<Rightarrow> None
           | Some s \<Rightarrow> CurrentVoteSets s (GetFnID remote)) = vp_currentVoteSet p"
  using assms
  by (auto simp add: voteSetSwitch_def Let_def
      split: option.splits sum.splits if_splits prod.splits)


subsection \<open>Auxiliary facts: startup\<close>


lemma OnStart_loop_eq:
  "OnStart_loop t fnIDs m fnID =
     (case m fnID of
        None \<Rightarrow> None
      | Some v \<Rightarrow> if fnID \<in> set fnIDs \<and> IsExpired t v ExpiresIn then None else Some v)"
proof (induction fnIDs arbitrary: m)
  case Nil
  then show ?case by (simp split: option.split)
next
  case (Cons k fnIDs)
  show ?case
    by (simp add: Cons.IH split: option.split) auto
qed

lemma OnStart_loaded:
  assumes "LoadReactorState e = Inr loaded"
  shows "state (reactor (snd (OnStart e f)))
           = Some (loaded\<lparr>CurrentVoteSets :=
                OnStart_loop (now e) (GetAll (fnRegistry f)) (CurrentVoteSets loaded)\<rparr>)"
    and "effects (snd (OnStart e f)) =
           CallSaveReactorState (loaded\<lparr>CurrentVoteSets :=
                OnStart_loop (now e) (GetAll (fnRegistry f)) (CurrentVoteSets loaded)\<rparr>)
           # (case SaveReactorState e (loaded\<lparr>CurrentVoteSets :=
                OnStart_loop (now e) (GetAll (fnRegistry f)) (CurrentVoteSets loaded)\<rparr>) of
                None \<Rightarrow> [GoProgressRoutine] | Some err \<Rightarrow> [])"
  using assms by (simp_all add: OnStart_def Let_def returns_def split: option.split)


subsection \<open>Configuration check at construction\<close>

text \<open>
  C2: constructing the reactor with a threshold that is neither \<open>Maj23\<close> nor \<open>All\<close>
  should fail with \<open>ErrInvalidReactorConfiguration\<close>, and constructing it with one of
  the two should succeed. The code does the opposite: \<open>IsValid\<close> holds of a
  configuration exactly when its threshold is neither of the two constants, so
  \<open>NewFnConsensusReactor\<close> refuses \<open>Maj23\<close> and \<open>All\<close> and accepts any other string.
\<close>

theorem NewFnConsensusReactor_refuses_named_thresholds:
  "IsValid (Some c) =
     (FnVoteSigningThreshold c \<noteq> AllSigningThreshold
      \<and> FnVoteSigningThreshold c \<noteq> Maj23SigningThreshold)
   \<and> NewFnConsensusReactor cid pv reg
       (Some \<lparr>OverrideValidatorSet = ovs, FnVoteSigningThreshold = Maj23SigningThreshold\<rparr>)
     = Inl ErrInvalidReactorConfiguration
   \<and> NewFnConsensusReactor cid pv reg
       (Some \<lparr>OverrideValidatorSet = ovs, FnVoteSigningThreshold = AllSigningThreshold\<rparr>)
     = Inl ErrInvalidReactorConfiguration
   \<and> NewFnConsensusReactor cid pv reg
       (Some \<lparr>OverrideValidatorSet = ovs, FnVoteSigningThreshold = ''Min1''\<rparr>)
     = Inr \<lparr>connectedPeers = [], state = None, chainID = cid, fnRegistry = reg,
            privValidator = pv, commitRoutineQuitCh = {}, staticValidators = None,
            cfg = Some \<lparr>OverrideValidatorSet = ovs, FnVoteSigningThreshold = ''Min1''\<rparr>\<rparr>"
  by (simp add: NewFnConsensusReactor_def IsValid_def Maj23SigningThreshold_def
      AllSigningThreshold_def)

subsection \<open>Proposer rotation\<close>

text \<open>
  C3: when the previous Maj23 vote set of an FnID exists, was signed by the current
  validator set and has the active validators of the stored proposal info, the next
  proposal info should keep that list and advance the turn by one, modulo the length of
  the list. The code builds the result from an empty \<open>ProposalInfo\<close> and, in this
  branch, never copies the list into it: the result has no active validators, and the
  turn is compared with the length of that empty list, so it is reset to 0 whenever it
  is not negative.
\<close>

theorem getNextProposalInfo_unchanged_validators:
  assumes "PreviousMaj23VoteSets st fnID = Some lastMaj23VoteSet"
    and "ValidatorsHash lastMaj23VoteSet = vsHash e currentValidatorSet"
    and "CurrentProposalInfo st fnID = Some cpi"
    and "ActiveValidators e lastMaj23VoteSet = LastActiveValidators cpi"
  shows "getNextProposalInfo e fnID st currentValidatorSet =
           Some \<lparr>LastActiveValidators = [],
                 CurrentTurn = (if 0 \<le>s CurrentTurn cpi + 1 then 0 else CurrentTurn cpi + 1)\<rparr>"
  using assms by (simp add: getNextProposalInfo_def)

theorem getNextProposalInfo_unchanged_validators_witness:
  "PreviousMaj23VoteSets
     (ex_state\<lparr>PreviousMaj23VoteSets :=
                  [''f'' \<mapsto> ex_voteSet ''a'' 1 100 [VoteTypeAgree, VoteTypeAgree, VoteTypeAgree]],
               CurrentProposalInfo :=
                  [''f'' \<mapsto> \<lparr>LastActiveValidators = [[1], [2], [3]], CurrentTurn = 0\<rparr>]\<rparr>) ''f''
     = Some (ex_voteSet ''a'' 1 100 [VoteTypeAgree, VoteTypeAgree, VoteTypeAgree])
   \<and> ValidatorsHash (ex_voteSet ''a'' 1 100 [VoteTypeAgree, VoteTypeAgree, VoteTypeAgree])
       = vsHash ex_env ex_vals3
   \<and> ActiveValidators ex_env (ex_voteSet ''a'' 1 100 [VoteTypeAgree, VoteTypeAgree, VoteTypeAgree])
       = [[1], [2], [3]]
   \<and> getNextProposalInfo ex_env ''f''
       (ex_state\<lparr>PreviousMaj23VoteSets :=
                    [''f'' \<mapsto> ex_voteSet ''a'' 1 100 [VoteTypeAgree, VoteTypeAgree, VoteTypeAgree]],
                 CurrentProposalInfo :=
                    [''f'' \<mapsto> \<lparr>LastActiveValidators = [[1], [2], [3]], CurrentTurn = 0\<rparr>]\<rparr>)
       ex_vals3
     = Some \<lparr>LastActiveValidators = [], CurrentTurn = 0\<rparr>"
  using getNextProposalInfo_unchanged_validators
    [of "ex_state\<lparr>PreviousMaj23VoteSets :=
                     [''f'' \<mapsto> ex_voteSet ''a'' 1 100 [VoteTypeAgree, VoteTypeAgree, VoteTypeAgree]],
                   CurrentProposalInfo :=
                     [''f'' \<mapsto> \<lparr>LastActiveValidators = [[1], [2], [3]], CurrentTurn = 0\<rparr>]\<rparr>"
        "''f''" "ex_voteSet ''a'' 1 100 [VoteTypeAgree, VoteTypeAgree, VoteTypeAgree]"
        ex_env ex_vals3 "\<lparr>LastActiveValidators = [[1], [2], [3]], CurrentTurn = 0\<rparr>"]
  by (simp add: ex_env_def ex_state_def ex_voteSet_def word_sle_eq)

subsection \<open>The commit routine: who submits\<close>

text \<open>
  C4, as amended: when the commit routine runs on a valid, converged vote set (the FnID
  is registered, the nonce is not negative), the node calls \<open>SubmitMultiSignedMessage\<close>
  if and only if it is a validator of the current set, the vote set meets the Agree
  threshold, and the node's dense rank among the Agree voters is the current nonce modulo
  the number of Agree votes. Ranks are unique: when the vote set meets the Agree
  threshold, exactly one of the nodes of the validators submits (the validators have
  distinct addresses and positive powers, one slot each); when it does not, no node
  submits, whatever its key.
\<close>

theorem handleCommit_one_submitter:
  assumes reg: "registryGet (fnRegistry f) fnID = Some fn"
    and st: "state f = Some st"
    and cfg: "cfg f = Some c"
    and cvs: "CurrentVoteSets st fnID = Some cvs"
    and vals: "getValidatorSet e f = vals"
    and valid: "VoteSetIsValid e (chainID f) MaxContextSize True ExpiresIn vals
           (fnRegistry f) (Some cvs)"
    and conv: "HasConverged (FnVoteSigningThreshold c) vals cvs"
    and nonce: "(case CurrentNonces st fnID of None \<Rightarrow> 0 | Some n \<Rightarrow> n) = nonce"
    and nonneg: "0 \<le>s nonce"
    and len: "length (Votes cvs) < 2 ^ 63"
  shows "(submits (handleCommit e f fnID) fnID =
            (fst (areWeValidator f vals)
             \<and> IsAgree (FnVoteSigningThreshold c) vals cvs
             \<and> GetAgreeVoteIndexForValidatorIndex cvs (snd (areWeValidator f vals))
                 = Inr (sint nonce mod NumberOfAgreeVotes cvs)))
       \<and> (IsAgree (FnVoteSigningThreshold c) vals cvs \<and> distinct (map Address vals)
           \<and> vals \<noteq> [] \<and> (\<forall>v \<in> set vals. 0 < VotingPower v)
           \<and> length (Votes cvs) = length vals
          \<longrightarrow> (\<exists>!i. i < length vals
                 \<and> submits (handleCommit e (f\<lparr>privValidator := Address (vals ! i)\<rparr>) fnID) fnID))
       \<and> (\<not> IsAgree (FnVoteSigningThreshold c) vals cvs
          \<longrightarrow> \<not> submits (handleCommit e (f\<lparr>privValidator := a\<rparr>) fnID) fnID)"
proof (intro conjI impI)
  show "submits (handleCommit e f fnID) fnID =
            (fst (areWeValidator f vals)
             \<and> IsAgree (FnVoteSigningThreshold c) vals cvs
             \<and> GetAgreeVoteIndexForValidatorIndex cvs (snd (areWeValidator f vals))
                 = Inr (sint nonce mod NumberOfAgreeVotes cvs))"
    using handleCommit_submits_iff [OF reg st cfg cvs _ _ nonce nonneg len] valid conv vals
    by simp
next
  assume h: "IsAgree (FnVoteSigningThreshold c) vals cvs \<and> distinct (map Address vals)
           \<and> vals \<noteq> [] \<and> (\<forall>v \<in> set vals. 0 < VotingPower v)
           \<and> length (Votes cvs) = length vals"
  then have agree: "IsAgree (FnVoteSigningThreshold c) vals cvs"
    and dist: "distinct (map Address vals)" and ne: "vals \<noteq> []"
    and pos: "\<forall>v \<in> set vals. 0 < VotingPower v"
    and same: "length (Votes cvs) = length vals"
    by simp_all
  let ?n = "NumberOfAgreeVotes cvs"
  let ?m = "sint nonce mod ?n"
  have n: "0 < ?n" using agree ne pos by (rule IsAgree_has_agree_vote)
  then have m: "0 \<le> ?m" "?m < ?n" by simp_all
  then have "nat ?m < length (filter (\<lambda>v. v = VoteTypeAgree) (Votes cvs))"
    by (simp add: NumberOfAgreeVotes_def)
  then have u: "\<exists>!i. i < length (Votes cvs) \<and> (Votes cvs ! i = VoteTypeAgree
       \<and> length (filter (\<lambda>v. v = VoteTypeAgree) (take i (Votes cvs))) = nat ?m)"
    by (rule unique_rank)
  have each: "submits (handleCommit e (f\<lparr>privValidator := Address (vals ! i)\<rparr>) fnID) fnID
      = (Votes cvs ! i = VoteTypeAgree
         \<and> length (filter (\<lambda>v. v = VoteTypeAgree) (take i (Votes cvs))) = nat ?m)"
    if i: "i < length (Votes cvs)" for i
  proof -
    let ?f = "f\<lparr>privValidator := Address (vals ! i)\<rparr>"
    have v: "getValidatorSet e ?f = vals" using vals by (simp add: getValidatorSet_def)
    have g: "GetByAddress vals (Address (vals ! i)) = int i"
      using dist i same by (simp add: GetByAddress_nth)
    have a: "areWeValidator ?f vals = (True, int i)"
      using g by (simp add: areWeValidator_def myAddress_def)
    have "submits (handleCommit e ?f fnID) fnID =
            (fst (areWeValidator ?f (getValidatorSet e ?f))
             \<and> IsAgree (FnVoteSigningThreshold c) (getValidatorSet e ?f) cvs
             \<and> GetAgreeVoteIndexForValidatorIndex cvs (snd (areWeValidator ?f (getValidatorSet e ?f)))
                 = Inr ?m)"
      using reg st cfg cvs valid conv nonce nonneg len v
      by (intro handleCommit_submits_iff [where fn = fn and st = st]) simp_all
    then show ?thesis
      using v a agree rank_of_index [OF i m(1)] by simp
  qed
  from u each show "\<exists>!i. i < length vals
      \<and> submits (handleCommit e (f\<lparr>privValidator := Address (vals ! i)\<rparr>) fnID) fnID"
    unfolding same [symmetric] by (rule ex1_cong_below)
next
  assume n: "\<not> IsAgree (FnVoteSigningThreshold c) vals cvs"
  let ?f = "f\<lparr>privValidator := a\<rparr>"
  have v: "getValidatorSet e ?f = vals" using vals by (simp add: getValidatorSet_def)
  have "submits (handleCommit e ?f fnID) fnID =
          (fst (areWeValidator ?f (getValidatorSet e ?f))
           \<and> IsAgree (FnVoteSigningThreshold c) (getValidatorSet e ?f) cvs
           \<and> GetAgreeVoteIndexForValidatorIndex cvs (snd (areWeValidator ?f (getValidatorSet e ?f)))
               = Inr (sint nonce mod NumberOfAgreeVotes cvs))"
    using reg st cfg cvs valid conv nonce nonneg len v
    by (intro handleCommit_submits_iff [where fn = fn and st = st]) simp_all
  with n v show "\<not> submits (handleCommit e ?f fnID) fnID" by simp
qed

theorem handleCommit_one_submitter_witness:
  "registryGet (fnRegistry (ex_reactor 2 Maj23SigningThreshold
        (ex_commit_state 1 [VoteTypeAgree, VoteTypeAgree, VoteTypeAgree]))) ''f'' = Some ex_fn
   \<and> HasConverged Maj23SigningThreshold ex_vals3
        (ex_voteSet ''a'' 1 100 [VoteTypeAgree, VoteTypeAgree, VoteTypeAgree])
   \<and> IsAgree Maj23SigningThreshold ex_vals3
        (ex_voteSet ''a'' 1 100 [VoteTypeAgree, VoteTypeAgree, VoteTypeAgree])
   \<and> (0::int64) \<le>s 1
   \<and> submits (handleCommit ex_env (ex_reactor 2 Maj23SigningThreshold
        (ex_commit_state 1 [VoteTypeAgree, VoteTypeAgree, VoteTypeAgree])) ''f'') ''f''
   \<and> (\<exists>!i. i < length ex_vals3
         \<and> submits (handleCommit ex_env
              ((ex_reactor 2 Maj23SigningThreshold
                 (ex_commit_state 1 [VoteTypeAgree, VoteTypeAgree, VoteTypeAgree]))
               \<lparr>privValidator := Address (ex_vals3 ! i)\<rparr>) ''f'') ''f'')
   \<and> HasConverged Maj23SigningThreshold ex_vals3
        (ex_voteSet ''a'' 1 100 [VoteTypeDisAgree, VoteTypeAgree, VoteTypeAgree])
   \<and> \<not> IsAgree Maj23SigningThreshold ex_vals3
        (ex_voteSet ''a'' 1 100 [VoteTypeDisAgree, VoteTypeAgree, VoteTypeAgree])
   \<and> \<not> submits (handleCommit ex_env
        ((ex_reactor 2 Maj23SigningThreshold
           (ex_commit_state 1 [VoteTypeDisAgree, VoteTypeAgree, VoteTypeAgree]))
         \<lparr>privValidator := [3]\<rparr>) ''f'') ''f''"
proof -
  let ?vs = "ex_voteSet ''a'' 1 100 [VoteTypeAgree, VoteTypeAgree, VoteTypeAgree]"
  let ?st = "ex_commit_state 1 [VoteTypeAgree, VoteTypeAgree, VoteTypeAgree]"
  let ?f = "ex_reactor 2 Maj23SigningThreshold ?st"
  let ?c = "\<lparr>OverrideValidatorSet = [], FnVoteSigningThreshold = Maj23SigningThreshold\<rparr>"
  have reg: "registryGet (fnRegistry ?f) ''f'' = Some ex_fn"
    by (simp add: ex_reactor_def registryGet_def)
  have st: "state ?f = Some ?st" by (simp add: ex_reactor_def)
  have cfg: "cfg ?f = Some ?c" by (simp add: ex_reactor_def)
  have cvs: "CurrentVoteSets ?st ''f'' = Some ?vs" by (simp add: ex_commit_state_def)
  have vals: "getValidatorSet ex_env ?f = ex_vals3"
    by (simp add: getValidatorSet_def ex_reactor_def ex_env_def)
  have valid: "VoteSetIsValid ex_env (chainID ?f) MaxContextSize True ExpiresIn ex_vals3
      (fnRegistry ?f) (Some ?vs)"
    by (simp add: ex_env_def)
  have conv: "HasConverged (FnVoteSigningThreshold ?c) ex_vals3 ?vs"
    by (simp add: HasConverged_def meetsThreshold_def TotalVotingPower_def ex_voteSet_def
        ex_vals3_def ex_validator_def)
  have agree: "IsAgree (FnVoteSigningThreshold ?c) ex_vals3 ?vs"
    by (simp add: IsAgree_def meetsThreshold_def TotalVotingPower_def ex_voteSet_def
        ex_vals3_def ex_validator_def)
  have nonce: "(case CurrentNonces ?st ''f'' of None \<Rightarrow> 0 | Some n \<Rightarrow> n) = 1"
    by (simp add: ex_commit_state_def)
  have nonneg: "(0::int64) \<le>s 1" by (simp add: word_sle_eq)
  have len: "length (Votes ?vs) < 2 ^ 63" by (simp add: ex_voteSet_def)
  have rest: "distinct (map Address ex_vals3) \<and> ex_vals3 \<noteq> []
      \<and> (\<forall>v \<in> set ex_vals3. 0 < VotingPower v) \<and> length (Votes ?vs) = length ex_vals3"
    by (simp add: ex_vals3_def ex_validator_def ex_voteSet_def)
  have me: "areWeValidator ?f ex_vals3 = (True, 1)"
    by (simp add: areWeValidator_def myAddress_def ex_reactor_def ex_vals3_def ex_validator_def)
  have rank: "GetAgreeVoteIndexForValidatorIndex ?vs 1 = Inr (sint (1::int64) mod NumberOfAgreeVotes ?vs)"
    by (simp add: GetAgreeVoteIndexForValidatorIndex_def NumberOfAgreeVotes_def ex_voteSet_def)
  note T = handleCommit_one_submitter [OF reg st cfg cvs vals valid conv nonce nonneg len]
  from T me rank agree have s: "submits (handleCommit ex_env ?f ''f'') ''f''"
    by simp
  from T agree rest have u: "\<exists>!i. i < length ex_vals3
         \<and> submits (handleCommit ex_env (?f\<lparr>privValidator := Address (ex_vals3 ! i)\<rparr>) ''f'') ''f''"
    by blast
  let ?vs' = "ex_voteSet ''a'' 1 100 [VoteTypeDisAgree, VoteTypeAgree, VoteTypeAgree]"
  let ?st' = "ex_commit_state 1 [VoteTypeDisAgree, VoteTypeAgree, VoteTypeAgree]"
  let ?f' = "ex_reactor 2 Maj23SigningThreshold ?st'"
  have reg': "registryGet (fnRegistry ?f') ''f'' = Some ex_fn"
    by (simp add: ex_reactor_def registryGet_def)
  have st': "state ?f' = Some ?st'" by (simp add: ex_reactor_def)
  have cfg': "cfg ?f' = Some ?c" by (simp add: ex_reactor_def)
  have cvs': "CurrentVoteSets ?st' ''f'' = Some ?vs'" by (simp add: ex_commit_state_def)
  have vals': "getValidatorSet ex_env ?f' = ex_vals3"
    by (simp add: getValidatorSet_def ex_reactor_def ex_env_def)
  have valid': "VoteSetIsValid ex_env (chainID ?f') MaxContextSize True ExpiresIn ex_vals3
      (fnRegistry ?f') (Some ?vs')"
    by (simp add: ex_env_def)
  have conv': "HasConverged Maj23SigningThreshold ex_vals3 ?vs'"
    by (simp add: threshold_defs ex_voteSet_def ex_vals3_def ex_validator_def)
  have conv'': "HasConverged (FnVoteSigningThreshold ?c) ex_vals3 ?vs'"
    using conv' by simp
  have nagree: "\<not> IsAgree Maj23SigningThreshold ex_vals3 ?vs'"
    by (simp add: threshold_defs ex_voteSet_def ex_vals3_def ex_validator_def)
  have nonce': "(case CurrentNonces ?st' ''f'' of None \<Rightarrow> 0 | Some n \<Rightarrow> n) = 1"
    by (simp add: ex_commit_state_def)
  have len': "length (Votes ?vs') < 2 ^ 63" by (simp add: ex_voteSet_def)
  note T' = handleCommit_one_submitter
    [OF reg' st' cfg' cvs' vals' valid' conv'' nonce' nonneg len', of "[3]"]
  from T' nagree have n: "\<not> submits (handleCommit ex_env (?f'\<lparr>privValidator := [3]\<rparr>) ''f'') ''f''"
    by simp
  from reg conv agree nonneg s u conv' nagree n show ?thesis by simp
qed

text \<open>
  Not every committed nonce has a submitter: on three validators of equal power under
  \<open>Maj23\<close>, with the votes Disagree, Agree, Agree, the vote set has converged and each of
  the three nodes increments the nonce from 1 to 2, and none of them submits.
\<close>

theorem handleCommit_one_submitter_counterexample:
  "HasConverged Maj23SigningThreshold ex_vals3
      (ex_voteSet ''a'' 1 100 [VoteTypeDisAgree, VoteTypeAgree, VoteTypeAgree])
   \<and> after CurrentNonces
        (handleCommit ex_env (ex_reactor 1 Maj23SigningThreshold
           (ex_commit_state 1 [VoteTypeDisAgree, VoteTypeAgree, VoteTypeAgree])) ''f'') ''f''
      = Some 2
   \<and> after CurrentNonces
        (handleCommit ex_env (ex_reactor 2 Maj23SigningThreshold
           (ex_commit_state 1 [VoteTypeDisAgree, VoteTypeAgree, VoteTypeAgree])) ''f'') ''f''
      = Some 2
   \<and> after CurrentNonces
        (handleCommit ex_env (ex_reactor 3 Maj23SigningThreshold
           (ex_commit_state 1 [VoteTypeDisAgree, VoteTypeAgree, VoteTypeAgree])) ''f'') ''f''
      = Some 2
   \<and> \<not> submits
        (handleCommit ex_env (ex_reactor 1 Maj23SigningThreshold
           (ex_commit_state 1 [VoteTypeDisAgree, VoteTypeAgree, VoteTypeAgree])) ''f'') ''f''
   \<and> \<not> submits
        (handleCommit ex_env (ex_reactor 2 Maj23SigningThreshold
           (ex_commit_state 1 [VoteTypeDisAgree, VoteTypeAgree, VoteTypeAgree])) ''f'') ''f''
   \<and> \<not> submits
        (handleCommit ex_env (ex_reactor 3 Maj23SigningThreshold
           (ex_commit_state 1 [VoteTypeDisAgree, VoteTypeAgree, VoteTypeAgree])) ''f'') ''f''"
  by (simp add: handleCommit_def handleCommit_converged_def handleCommit_save_def returns_def
      after_def submits_def registryGet_def getValidatorSet_def areWeValidator_def myAddress_def
      threshold_defs MaxContextSize_def ExpiresIn_def ex_defs Let_def)

subsection \<open>The commit routine: two Agree votes and one Disagree vote of three\<close>

text \<open>
  C1, as amended: with the threshold \<open>Maj23\<close> and three validators of equal power, when
  the current vote set holds two Agree votes and one Disagree vote, the vote set has
  converged and does not meet the Agree threshold. The commit routine then makes no call
  to \<open>SubmitMultiSignedMessage\<close>, stores the vote set in \<open>PreviousMaj23VoteSets\<close>, leaves
  \<open>PreviousTimedOutVoteSets\<close> as it was, clears the current vote set and increments the
  nonce of the FnID by one.
\<close>

theorem handleCommit_two_agree_one_disagree:
  assumes reg: "registryGet (fnRegistry f) fnID = Some fn"
    and st: "state f = Some st"
    and cfg: "cfg f = Some c"
    and thr: "FnVoteSigningThreshold c = Maj23SigningThreshold"
    and cvs: "CurrentVoteSets st fnID = Some cvs"
    and vals: "getValidatorSet e f = [v1, v2, v3]"
    and power: "VotingPower v1 = p" "VotingPower v2 = p" "VotingPower v3 = p" "0 < p"
    and votes: "length (Votes cvs) = 3" "NumberOfAgreeVotes cvs = 2" "NumberOfVotes cvs = 3"
    and valid: "VoteSetIsValid e (chainID f) MaxContextSize True ExpiresIn [v1, v2, v3]
           (fnRegistry f) (Some cvs)"
  shows "HasConverged Maj23SigningThreshold [v1, v2, v3] cvs
       \<and> \<not> IsAgree Maj23SigningThreshold [v1, v2, v3] cvs
       \<and> \<not> submits (handleCommit e f fnID) fnID
       \<and> onlySaves (handleCommit e f fnID)
       \<and> after PreviousMaj23VoteSets (handleCommit e f fnID) fnID = Some cvs
       \<and> after PreviousTimedOutVoteSets (handleCommit e f fnID) fnID
           = PreviousTimedOutVoteSets st fnID
       \<and> after CurrentVoteSets (handleCommit e f fnID) fnID = None
       \<and> after CurrentNonces (handleCommit e f fnID) fnID
           = Some ((case CurrentNonces st fnID of None \<Rightarrow> 0 | Some n \<Rightarrow> n) + 1)"
proof -
  have pw: "votedPower (\<lambda>v. v = VoteTypeAgree) (Votes cvs) [v1, v2, v3] = 2 * p
       \<and> votedPower (\<lambda>v. v \<noteq> Unvoted) (Votes cvs) [v1, v2, v3] = 3 * p"
    using votes power(1-3)
    by (intro two_agree_one_disagree) (simp_all add: NumberOfAgreeVotes_def NumberOfVotes_def)
  have tot: "TotalVotingPower [v1, v2, v3] = 3 * p"
    using power by (simp add: TotalVotingPower_def)
  have conv: "HasConverged Maj23SigningThreshold [v1, v2, v3] cvs"
    using pw tot power(4) by (simp add: HasConverged_def meetsThreshold_def)
  have nagree: "\<not> IsAgree Maj23SigningThreshold [v1, v2, v3] cvs"
    using pw tot by (simp add: IsAgree_def meetsThreshold_def)
  have "handleCommit e f fnID =
      handleCommit_converged e f st fnID cvs
        (case CurrentNonces st fnID of None \<Rightarrow> 0 | Some n \<Rightarrow> n) []"
    using reg st cfg cvs valid conv nagree vals thr
    by (intro handleCommit_no_agree [where fn = fn and c = c]) simp_all
  then show ?thesis
    using conv nagree
    by (simp add: after_handleCommit_converged submits_handleCommit_converged onlySaves_def)
qed

text \<open>
  The claim as stated (the vote set is archived into \<open>PreviousTimedOutVoteSets\<close> and the
  nonce is unchanged) fails on three validators of power 10 with the votes Agree, Agree,
  Disagree at nonce 1: the nonce becomes 2 and \<open>PreviousTimedOutVoteSets\<close> stays empty.
\<close>


theorem handleCommit_two_agree_one_disagree_counterexample:
  "HasConverged Maj23SigningThreshold ex_vals3
      (ex_voteSet ''a'' 1 100 [VoteTypeAgree, VoteTypeAgree, VoteTypeDisAgree])
   \<and> \<not> IsAgree Maj23SigningThreshold ex_vals3
      (ex_voteSet ''a'' 1 100 [VoteTypeAgree, VoteTypeAgree, VoteTypeDisAgree])
   \<and> after CurrentNonces
        (returns (ex_reactor 1 Maj23SigningThreshold
           (ex_commit_state 1 [VoteTypeAgree, VoteTypeAgree, VoteTypeDisAgree])) []) ''f''
      = Some 1
   \<and> after CurrentNonces
        (handleCommit ex_env (ex_reactor 1 Maj23SigningThreshold
           (ex_commit_state 1 [VoteTypeAgree, VoteTypeAgree, VoteTypeDisAgree])) ''f'') ''f''
      = Some 2
   \<and> after PreviousTimedOutVoteSets
        (handleCommit ex_env (ex_reactor 1 Maj23SigningThreshold
           (ex_commit_state 1 [VoteTypeAgree, VoteTypeAgree, VoteTypeDisAgree])) ''f'') ''f''
      = None
   \<and> after PreviousMaj23VoteSets
        (handleCommit ex_env (ex_reactor 1 Maj23SigningThreshold
           (ex_commit_state 1 [VoteTypeAgree, VoteTypeAgree, VoteTypeDisAgree])) ''f'') ''f''
      = Some (ex_voteSet ''a'' 1 100 [VoteTypeAgree, VoteTypeAgree, VoteTypeDisAgree])"
  by (simp add: handleCommit_def handleCommit_converged_def handleCommit_save_def returns_def
      after_def registryGet_def getValidatorSet_def areWeValidator_def myAddress_def
      HasConverged_def IsAgree_def meetsThreshold_def TotalVotingPower_def
      MaxContextSize_def ExpiresIn_def Maj23SigningThreshold_def AllSigningThreshold_def ex_defs Let_def)


theorem handleCommit_two_agree_one_disagree_witness:
  "getValidatorSet ex_env (ex_reactor 1 Maj23SigningThreshold
        (ex_commit_state 1 [VoteTypeAgree, VoteTypeAgree, VoteTypeDisAgree]))
     = [ex_validator 1, ex_validator 2, ex_validator 3]
   \<and> VotingPower (ex_validator 1) = 10 \<and> VotingPower (ex_validator 2) = 10
   \<and> VotingPower (ex_validator 3) = 10
   \<and> NumberOfAgreeVotes (ex_voteSet ''a'' 1 100 [VoteTypeAgree, VoteTypeAgree, VoteTypeDisAgree]) = 2
   \<and> NumberOfVotes (ex_voteSet ''a'' 1 100 [VoteTypeAgree, VoteTypeAgree, VoteTypeDisAgree]) = 3
   \<and> \<not> submits (handleCommit ex_env (ex_reactor 1 Maj23SigningThreshold
           (ex_commit_state 1 [VoteTypeAgree, VoteTypeAgree, VoteTypeDisAgree])) ''f'') ''f''
   \<and> onlySaves (handleCommit ex_env (ex_reactor 1 Maj23SigningThreshold
           (ex_commit_state 1 [VoteTypeAgree, VoteTypeAgree, VoteTypeDisAgree])) ''f'')
   \<and> after PreviousMaj23VoteSets (handleCommit ex_env (ex_reactor 1 Maj23SigningThreshold
           (ex_commit_state 1 [VoteTypeAgree, VoteTypeAgree, VoteTypeDisAgree])) ''f'') ''f''
       = Some (ex_voteSet ''a'' 1 100 [VoteTypeAgree, VoteTypeAgree, VoteTypeDisAgree])
   \<and> after PreviousTimedOutVoteSets (handleCommit ex_env (ex_reactor 1 Maj23SigningThreshold
           (ex_commit_state 1 [VoteTypeAgree, VoteTypeAgree, VoteTypeDisAgree])) ''f'') ''f''
       = None
   \<and> after CurrentVoteSets (handleCommit ex_env (ex_reactor 1 Maj23SigningThreshold
           (ex_commit_state 1 [VoteTypeAgree, VoteTypeAgree, VoteTypeDisAgree])) ''f'') ''f''
       = None
   \<and> after CurrentNonces (handleCommit ex_env (ex_reactor 1 Maj23SigningThreshold
           (ex_commit_state 1 [VoteTypeAgree, VoteTypeAgree, VoteTypeDisAgree])) ''f'') ''f''
       = Some 2"
proof -
  let ?vs = "ex_voteSet ''a'' 1 100 [VoteTypeAgree, VoteTypeAgree, VoteTypeDisAgree]"
  let ?st = "ex_commit_state 1 [VoteTypeAgree, VoteTypeAgree, VoteTypeDisAgree]"
  let ?f = "ex_reactor 1 Maj23SigningThreshold ?st"
  let ?c = "\<lparr>OverrideValidatorSet = [], FnVoteSigningThreshold = Maj23SigningThreshold\<rparr>"
  have reg: "registryGet (fnRegistry ?f) ''f'' = Some ex_fn"
    by (simp add: ex_reactor_def registryGet_def)
  have st: "state ?f = Some ?st" by (simp add: ex_reactor_def)
  have cfg: "cfg ?f = Some ?c" by (simp add: ex_reactor_def)
  have thr: "FnVoteSigningThreshold ?c = Maj23SigningThreshold" by simp
  have cvs: "CurrentVoteSets ?st ''f'' = Some ?vs" by (simp add: ex_commit_state_def)
  have vals: "getValidatorSet ex_env ?f = [ex_validator 1, ex_validator 2, ex_validator 3]"
    by (simp add: getValidatorSet_def ex_reactor_def ex_env_def ex_vals3_def)
  have power: "VotingPower (ex_validator 1) = 10" "VotingPower (ex_validator 2) = 10"
      "VotingPower (ex_validator 3) = 10" "(0::int) < 10"
    by (simp_all add: ex_validator_def)
  have votes: "length (Votes ?vs) = 3" "NumberOfAgreeVotes ?vs = 2" "NumberOfVotes ?vs = 3"
    by (simp_all add: ex_voteSet_def NumberOfAgreeVotes_def NumberOfVotes_def)
  have valid: "VoteSetIsValid ex_env (chainID ?f) MaxContextSize True ExpiresIn
      [ex_validator 1, ex_validator 2, ex_validator 3] (fnRegistry ?f) (Some ?vs)"
    by (simp add: ex_env_def)
  have before: "PreviousTimedOutVoteSets ?st ''f'' = None"
      "(case CurrentNonces ?st ''f'' of None \<Rightarrow> 0 | Some n \<Rightarrow> n) + 1 = 2"
    by (simp_all add: ex_commit_state_def ex_state_def)
  from handleCommit_two_agree_one_disagree [OF reg st cfg thr cvs vals power votes valid]
    vals power(1-3) votes(2,3) before
  show ?thesis by simp
qed
subsection \<open>The commit routine: the nonce\<close>





subsection \<open>Comparing two vote sets that both meet the threshold\<close>

text \<open>
  C5, as amended: for two vote sets with different IDs that both meet the threshold
  (with Agree or with Disagree), both or neither of them with Agree, \<open>compareVoteSets\<close>
  keeps the local vote set when neither meets the Agree threshold; when both do, the
  vote set with more votes wins, then the one with more Agree votes, then the one with
  the later \<open>CreationTime\<close>, and on an exact tie the local vote set is kept.
\<close>



theorem compareVoteSets_both_met:
  assumes cfg: "cfg f = Some c"
    and ids: "ID currentVoteSet \<noteq> ID remoteVoteSet"
    and cur: "IsAgree (FnVoteSigningThreshold c) vals currentVoteSet
              \<or> IsDisagree (FnVoteSigningThreshold c) vals currentVoteSet"
    and rem: "IsAgree (FnVoteSigningThreshold c) vals remoteVoteSet
              \<or> IsDisagree (FnVoteSigningThreshold c) vals remoteVoteSet"
    and same: "IsAgree (FnVoteSigningThreshold c) vals currentVoteSet
               = IsAgree (FnVoteSigningThreshold c) vals remoteVoteSet"
  shows "compareVoteSets f remoteVoteSet (Some currentVoteSet) currentNonce vals =
     Some (if \<not> IsAgree (FnVoteSigningThreshold c) vals currentVoteSet then - 1
           else if NumberOfVotes remoteVoteSet < NumberOfVotes currentVoteSet then - 1
           else if NumberOfVotes currentVoteSet < NumberOfVotes remoteVoteSet then 1
           else if NumberOfAgreeVotes remoteVoteSet < NumberOfAgreeVotes currentVoteSet then - 1
           else if NumberOfAgreeVotes currentVoteSet < NumberOfAgreeVotes remoteVoteSet then 1
           else if CreationTime currentVoteSet <s CreationTime remoteVoteSet then 1
           else - 1)"
  using assms by (auto simp add: compareVoteSets_def Let_def)


text \<open>
  The rule as the claim words it fails twice on four validators of equal power: a remote
  vote set with four Disagree votes does not replace a local one with three, and a remote
  vote set created earlier does not replace a local one with the same votes.
\<close>

theorem compareVoteSets_both_met_counterexample:
  "IsDisagree Maj23SigningThreshold ex_vals4
      (ex_voteSet ''a'' 1 100 [VoteTypeDisAgree, VoteTypeDisAgree, VoteTypeDisAgree, Unvoted])
   \<and> IsDisagree Maj23SigningThreshold ex_vals4
      (ex_voteSet ''b'' 1 100 [VoteTypeDisAgree, VoteTypeDisAgree, VoteTypeDisAgree, VoteTypeDisAgree])
   \<and> \<not> IsAgree Maj23SigningThreshold ex_vals4
      (ex_voteSet ''a'' 1 100 [VoteTypeDisAgree, VoteTypeDisAgree, VoteTypeDisAgree, Unvoted])
   \<and> \<not> IsAgree Maj23SigningThreshold ex_vals4
      (ex_voteSet ''b'' 1 100 [VoteTypeDisAgree, VoteTypeDisAgree, VoteTypeDisAgree, VoteTypeDisAgree])
   \<and> tieBreak_spec
        (ex_voteSet ''b'' 1 100 [VoteTypeDisAgree, VoteTypeDisAgree, VoteTypeDisAgree, VoteTypeDisAgree])
        (ex_voteSet ''a'' 1 100 [VoteTypeDisAgree, VoteTypeDisAgree, VoteTypeDisAgree, Unvoted])
      = 1
   \<and> compareVoteSets (ex_reactor 1 Maj23SigningThreshold ex_state)
        (ex_voteSet ''b'' 1 100 [VoteTypeDisAgree, VoteTypeDisAgree, VoteTypeDisAgree, VoteTypeDisAgree])
        (Some (ex_voteSet ''a'' 1 100 [VoteTypeDisAgree, VoteTypeDisAgree, VoteTypeDisAgree, Unvoted]))
        1 ex_vals4
      = Some (- 1)
   \<and> IsAgree Maj23SigningThreshold ex_vals4
      (ex_voteSet ''a'' 1 100 [VoteTypeAgree, VoteTypeAgree, VoteTypeAgree, Unvoted])
   \<and> IsAgree Maj23SigningThreshold ex_vals4
      (ex_voteSet ''b'' 1 90 [VoteTypeAgree, VoteTypeAgree, VoteTypeAgree, Unvoted])
   \<and> tieBreak_spec
        (ex_voteSet ''b'' 1 90 [VoteTypeAgree, VoteTypeAgree, VoteTypeAgree, Unvoted])
        (ex_voteSet ''a'' 1 100 [VoteTypeAgree, VoteTypeAgree, VoteTypeAgree, Unvoted])
      = 1
   \<and> compareVoteSets (ex_reactor 1 Maj23SigningThreshold ex_state)
        (ex_voteSet ''b'' 1 90 [VoteTypeAgree, VoteTypeAgree, VoteTypeAgree, Unvoted])
        (Some (ex_voteSet ''a'' 1 100 [VoteTypeAgree, VoteTypeAgree, VoteTypeAgree, Unvoted]))
        1 ex_vals4
      = Some (- 1)"
  by (simp add: compareVoteSets_def tieBreak_spec_def NumberOfVotes_def NumberOfAgreeVotes_def
      threshold_defs ex_defs Let_def word_sless_alt)



theorem compareVoteSets_both_met_witness:
  "cfg (ex_reactor 1 Maj23SigningThreshold ex_state)
      = Some \<lparr>OverrideValidatorSet = [], FnVoteSigningThreshold = Maj23SigningThreshold\<rparr>
   \<and> ID (ex_voteSet ''a'' 1 100 [VoteTypeAgree, VoteTypeAgree, VoteTypeAgree, Unvoted])
       \<noteq> ID (ex_voteSet ''b'' 1 100 [VoteTypeAgree, VoteTypeAgree, VoteTypeAgree, VoteTypeAgree])
   \<and> IsAgree Maj23SigningThreshold ex_vals4
        (ex_voteSet ''a'' 1 100 [VoteTypeAgree, VoteTypeAgree, VoteTypeAgree, Unvoted])
   \<and> IsAgree Maj23SigningThreshold ex_vals4
        (ex_voteSet ''b'' 1 100 [VoteTypeAgree, VoteTypeAgree, VoteTypeAgree, VoteTypeAgree])
   \<and> compareVoteSets (ex_reactor 1 Maj23SigningThreshold ex_state)
        (ex_voteSet ''b'' 1 100 [VoteTypeAgree, VoteTypeAgree, VoteTypeAgree, VoteTypeAgree])
        (Some (ex_voteSet ''a'' 1 100 [VoteTypeAgree, VoteTypeAgree, VoteTypeAgree, Unvoted]))
        1 ex_vals4
      = Some 1"
proof -
  let ?cur = "ex_voteSet ''a'' 1 100 [VoteTypeAgree, VoteTypeAgree, VoteTypeAgree, Unvoted]"
  let ?rem = "ex_voteSet ''b'' 1 100 [VoteTypeAgree, VoteTypeAgree, VoteTypeAgree, VoteTypeAgree]"
  let ?c = "\<lparr>OverrideValidatorSet = [], FnVoteSigningThreshold = Maj23SigningThreshold\<rparr>"
  have cfg: "cfg (ex_reactor 1 Maj23SigningThreshold ex_state) = Some ?c"
    by (simp add: ex_reactor_def)
  have ids: "ID ?cur \<noteq> ID ?rem" by (simp add: ex_voteSet_def)
  have a1: "IsAgree Maj23SigningThreshold ex_vals4 ?cur"
    by (simp add: threshold_defs ex_defs)
  have a2: "IsAgree Maj23SigningThreshold ex_vals4 ?rem"
    by (simp add: threshold_defs ex_defs)
  have n: "NumberOfVotes ?cur = 3" "NumberOfVotes ?rem = 4"
    by (simp_all add: NumberOfVotes_def ex_voteSet_def)
  from compareVoteSets_both_met [of "ex_reactor 1 Maj23SigningThreshold ex_state" ?c ?cur ?rem
      ex_vals4 1] cfg ids a1 a2 n
  show ?thesis by simp
qed

subsection \<open>The Maj23 handler\<close>

text \<open>
  C6: for a remote vote set that decodes, is valid with the current or the previous
  validator set, has expired and has converged (the write of the state and the encoding
  succeed): when its nonce is at least the current nonce of its FnID it is installed as
  the previous Maj23 vote set, the current nonce becomes its nonce plus one, the previous
  validator set and the proposal info are updated, and it is sent to every connected
  peer; when its nonce is the current nonce minus one and no previous Maj23 vote set is
  stored, it is stored without a change of the nonce and nothing is sent; otherwise the
  state is left as it was and nothing is sent.
\<close>

theorem handleMaj23VoteSetChannel_cases:
  assumes st: "state f = Some st"
    and dec: "Unmarshal e msgBytes = Inr remote"
    and signed: "validatorSetWhichSigned e f (getValidatorSet e f) (PreviousValidatorSet st) remote
                   = Some signedBy"
    and exp: "IsExpired (now e) remote ExpiresIn"
    and cfg: "cfg f = Some c"
    and conv: "HasConverged (FnVoteSigningThreshold c) signedBy remote"
    and save: "SaveReactorState e (fst (installMaj23 st remote signedBy)) = None"
    and enc: "Marshal e remote = Inr bs"
    and nonce: "(case CurrentNonces st (GetFnID remote) of None \<Rightarrow> 1 | Some n \<Rightarrow> n) = currentNonce"
  shows "(currentNonce \<le>s Nonce remote \<longrightarrow>
            state (reactor (handleMaj23VoteSetChannel e f sender msgBytes))
              = Some (st\<lparr>PreviousMaj23VoteSets :=
                            (PreviousMaj23VoteSets st)(GetFnID remote \<mapsto> remote),
                         PreviousValidatorSet := Some signedBy,
                         CurrentProposalInfo :=
                            (CurrentProposalInfo st)(GetFnID remote := ProposalInfo remote),
                         CurrentNonces :=
                            (CurrentNonces st)(GetFnID remote \<mapsto> Nonce remote + 1)\<rparr>)
            \<and> sent (handleMaj23VoteSetChannel e f sender msgBytes)
                = sendTo (\<lambda>p. True) (connectedPeers f) FnMaj23Channel bs)
       \<and> (Nonce remote <s currentNonce \<and> Nonce remote = currentNonce - 1
            \<and> PreviousMaj23VoteSets st (GetFnID remote) = None \<longrightarrow>
            state (reactor (handleMaj23VoteSetChannel e f sender msgBytes))
              = Some (st\<lparr>PreviousMaj23VoteSets :=
                            (PreviousMaj23VoteSets st)(GetFnID remote \<mapsto> remote),
                         PreviousValidatorSet := Some signedBy,
                         CurrentProposalInfo :=
                            (CurrentProposalInfo st)(GetFnID remote := ProposalInfo remote)\<rparr>)
            \<and> sent (handleMaj23VoteSetChannel e f sender msgBytes) = [])
       \<and> (Nonce remote <s currentNonce
            \<and> \<not> (Nonce remote = currentNonce - 1
                   \<and> PreviousMaj23VoteSets st (GetFnID remote) = None) \<longrightarrow>
            state (reactor (handleMaj23VoteSetChannel e f sender msgBytes)) = Some st
            \<and> sent (handleMaj23VoteSetChannel e f sender msgBytes) = [])"
proof -
  note r = handleMaj23VoteSetChannel_accepted [OF st dec signed exp cfg conv save enc]
  have le: "(currentNonce \<le>s Nonce remote) = (\<not> Nonce remote <s currentNonce)"
    by (simp add: word_sle_eq word_sless_alt not_less)
  show ?thesis
    unfolding r le using nonce
    by (auto simp add: installMaj23_def Let_def returns_def sent_def sent_sendTo)
qed

theorem handleMaj23VoteSetChannel_cases_witness:
  "IsExpired (now (ex_env_receiving (ex_voteSet ''a'' 17 50 [VoteTypeAgree, VoteTypeAgree, VoteTypeAgree])))
      (ex_voteSet ''a'' 17 50 [VoteTypeAgree, VoteTypeAgree, VoteTypeAgree]) ExpiresIn
   \<and> HasConverged Maj23SigningThreshold ex_vals3
      (ex_voteSet ''a'' 17 50 [VoteTypeAgree, VoteTypeAgree, VoteTypeAgree])
   \<and> after CurrentNonces
        (handleMaj23VoteSetChannel
           (ex_env_receiving (ex_voteSet ''a'' 17 50 [VoteTypeAgree, VoteTypeAgree, VoteTypeAgree]))
           (ex_reactor 3 Maj23SigningThreshold ex_state) ''p1'' []) ''f'' = Some 18
   \<and> after PreviousMaj23VoteSets
        (handleMaj23VoteSetChannel
           (ex_env_receiving (ex_voteSet ''a'' 17 50 [VoteTypeAgree, VoteTypeAgree, VoteTypeAgree]))
           (ex_reactor 3 Maj23SigningThreshold ex_state) ''p1'' []) ''f''
       = Some (ex_voteSet ''a'' 17 50 [VoteTypeAgree, VoteTypeAgree, VoteTypeAgree])
   \<and> sent
        (handleMaj23VoteSetChannel
           (ex_env_receiving (ex_voteSet ''a'' 17 50 [VoteTypeAgree, VoteTypeAgree, VoteTypeAgree]))
           (ex_reactor 3 Maj23SigningThreshold ex_state) ''p1'' [])
       = [Send ''p1'' FnMaj23Channel [1, 1, 1], Send ''p2'' FnMaj23Channel [1, 1, 1]]
   \<and> after CurrentNonces
        (handleMaj23VoteSetChannel
           (ex_env_receiving (ex_voteSet ''a'' 17 50 [VoteTypeAgree, VoteTypeAgree, VoteTypeAgree]))
           (ex_reactor 3 Maj23SigningThreshold (ex_nonce_state 18)) ''p1'' []) ''f'' = Some 18
   \<and> after PreviousMaj23VoteSets
        (handleMaj23VoteSetChannel
           (ex_env_receiving (ex_voteSet ''a'' 17 50 [VoteTypeAgree, VoteTypeAgree, VoteTypeAgree]))
           (ex_reactor 3 Maj23SigningThreshold (ex_nonce_state 18)) ''p1'' []) ''f''
       = Some (ex_voteSet ''a'' 17 50 [VoteTypeAgree, VoteTypeAgree, VoteTypeAgree])
   \<and> sent
        (handleMaj23VoteSetChannel
           (ex_env_receiving (ex_voteSet ''a'' 17 50 [VoteTypeAgree, VoteTypeAgree, VoteTypeAgree]))
           (ex_reactor 3 Maj23SigningThreshold (ex_nonce_state 18)) ''p1'' []) = []
   \<and> state (reactor
        (handleMaj23VoteSetChannel
           (ex_env_receiving (ex_voteSet ''a'' 17 50 [VoteTypeAgree, VoteTypeAgree, VoteTypeAgree]))
           (ex_reactor 3 Maj23SigningThreshold (ex_nonce_state 20)) ''p1'' []))
       = Some (ex_nonce_state 20)
   \<and> sent
        (handleMaj23VoteSetChannel
           (ex_env_receiving (ex_voteSet ''a'' 17 50 [VoteTypeAgree, VoteTypeAgree, VoteTypeAgree]))
           (ex_reactor 3 Maj23SigningThreshold (ex_nonce_state 20)) ''p1'' []) = []"
proof -
  let ?vs = "ex_voteSet ''a'' 17 50 [VoteTypeAgree, VoteTypeAgree, VoteTypeAgree]"
  let ?e = "ex_env_receiving ?vs"
  have exp: "IsExpired (now ?e) ?vs ExpiresIn"
    by (simp add: IsExpired_def ExpiresIn_def CommitRoutineExecutionBuffer_def ex_defs)
  have conv: "HasConverged Maj23SigningThreshold ex_vals3 ?vs"
    by (simp add: threshold_defs ex_defs)
  have conv': "HasConverged
      (FnVoteSigningThreshold \<lparr>OverrideValidatorSet = [], FnVoteSigningThreshold = Maj23SigningThreshold\<rparr>)
      ex_vals3 ?vs"
    using conv by simp
  have fnid: "GetFnID ?vs = ''f''" "Nonce ?vs = 17" "ProposalInfo ?vs = None"
    by (simp_all add: GetFnID_def ex_voteSet_def)
  have n1: "(case CurrentNonces ex_state (GetFnID ?vs) of None \<Rightarrow> 1 | Some n \<Rightarrow> n) = 1"
    by (simp add: ex_state_def)
  have n2: "(case CurrentNonces (ex_nonce_state 18) (GetFnID ?vs) of None \<Rightarrow> 1 | Some n \<Rightarrow> n) = 18"
    by (simp add: ex_nonce_state_def fnid)
  have n3: "(case CurrentNonces (ex_nonce_state 20) (GetFnID ?vs) of None \<Rightarrow> 1 | Some n \<Rightarrow> n) = 20"
    by (simp add: ex_nonce_state_def fnid)
  have c1: "(1::int64) \<le>s 17" by (simp add: word_sle_eq)
  have c2: "(17::int64) <s 18 \<and> (17::int64) = 18 - 1
      \<and> PreviousMaj23VoteSets (ex_nonce_state 18) ''f'' = None"
    by (simp add: word_sless_alt ex_nonce_state_def ex_state_def)
  have c3: "(17::int64) <s 20 \<and> \<not> ((17::int64) = 20 - 1
      \<and> PreviousMaj23VoteSets (ex_nonce_state 20) ''f'' = None)"
    by (simp add: word_sless_alt)
  note T1 = handleMaj23VoteSetChannel_cases [OF ex_maj23_hyps(4) ex_maj23_hyps(1)
      ex_maj23_hyps(2) exp ex_maj23_hyps(3) conv' ex_maj23_hyps(5) ex_maj23_hyps(6) n1,
      of 3 "''p1''" "[]"]
  note T2 = handleMaj23VoteSetChannel_cases [OF ex_maj23_hyps(4) ex_maj23_hyps(1)
      ex_maj23_hyps(2) exp ex_maj23_hyps(3) conv' ex_maj23_hyps(5) ex_maj23_hyps(6) n2,
      of 3 "''p1''" "[]"]
  note T3 = handleMaj23VoteSetChannel_cases [OF ex_maj23_hyps(4) ex_maj23_hyps(1)
      ex_maj23_hyps(2) exp ex_maj23_hyps(3) conv' ex_maj23_hyps(5) ex_maj23_hyps(6) n3,
      of 3 "''p1''" "[]"]
  have enc: "ex_encode ?vs = [1, 1, 1]" by (simp add: ex_encode_def ex_voteSet_def)
  have c1': "1 \<le>s Nonce ?vs" using c1 by (simp add: fnid)
  have c2': "Nonce ?vs <s 18 \<and> Nonce ?vs = 18 - 1
      \<and> PreviousMaj23VoteSets (ex_nonce_state 18) (GetFnID ?vs) = None"
    using c2 by (simp add: fnid)
  have c3': "Nonce ?vs <s 20 \<and> \<not> (Nonce ?vs = 20 - 1
      \<and> PreviousMaj23VoteSets (ex_nonce_state 20) (GetFnID ?vs) = None)"
    using c3 by (simp add: fnid)
  note A1 = T1 [THEN conjunct1, rule_format, OF c1']
  note A2 = T2 [THEN conjunct2, THEN conjunct1, rule_format, OF c2']
  note A3 = T3 [THEN conjunct2, THEN conjunct2, rule_format, OF c3']
  have r1a: "after CurrentNonces
        (handleMaj23VoteSetChannel ?e (ex_reactor 3 Maj23SigningThreshold ex_state) ''p1'' []) ''f''
        = Some 18"
    unfolding after_def A1 [THEN conjunct1] by (simp add: fnid)
  have r1b: "after PreviousMaj23VoteSets
        (handleMaj23VoteSetChannel ?e (ex_reactor 3 Maj23SigningThreshold ex_state) ''p1'' []) ''f''
        = Some ?vs"
    unfolding after_def A1 [THEN conjunct1] by (simp add: fnid)
  have r1c: "sent (handleMaj23VoteSetChannel ?e (ex_reactor 3 Maj23SigningThreshold ex_state) ''p1'' [])
        = [Send ''p1'' FnMaj23Channel [1, 1, 1], Send ''p2'' FnMaj23Channel [1, 1, 1]]"
    unfolding A1 [THEN conjunct2] by (simp add: ex_maj23_hyps(7) sendTo_def enc)
  have r2a: "after CurrentNonces
        (handleMaj23VoteSetChannel ?e (ex_reactor 3 Maj23SigningThreshold (ex_nonce_state 18)) ''p1'' []) ''f''
        = Some 18"
    unfolding after_def A2 [THEN conjunct1] by (simp add: fnid ex_nonce_state_def)
  have r2b: "after PreviousMaj23VoteSets
        (handleMaj23VoteSetChannel ?e (ex_reactor 3 Maj23SigningThreshold (ex_nonce_state 18)) ''p1'' []) ''f''
        = Some ?vs"
    unfolding after_def A2 [THEN conjunct1] by (simp add: fnid)
  note r2c = A2 [THEN conjunct2]
  note r3 = A3
  from exp conv r1a r1b r1c r2a r2b r2c r3 show ?thesis by blast

qed

subsection \<open>Startup\<close>

text \<open>
  C10: when \<open>OnStart\<close> has loaded the persisted state, the state of the reactor is the
  loaded one without the current vote sets of registered FnIDs that have expired with
  respect to \<open>ExpiresIn\<close>: such a vote set is deleted, every other current vote set and
  every other field of the state is as loaded, in particular \<open>PreviousTimedOutVoteSets\<close>,
  and this state is what \<open>OnStart\<close> saves. The progress routine, on the contrary, moves
  an expired current vote set into \<open>PreviousTimedOutVoteSets\<close>.
\<close>

theorem OnStart_drops_expired:
  assumes load: "LoadReactorState e = Inr loaded"
  shows "\<exists>st'. state (reactor (snd (OnStart e f))) = Some st'
       \<and> (\<forall>fnID v. CurrentVoteSets loaded fnID = Some v \<and> fnID \<in> set (GetAll (fnRegistry f))
               \<and> IsExpired (now e) v ExpiresIn
            \<longrightarrow> CurrentVoteSets st' fnID = None)
       \<and> (\<forall>fnID v. CurrentVoteSets loaded fnID = Some v
               \<and> \<not> (fnID \<in> set (GetAll (fnRegistry f)) \<and> IsExpired (now e) v ExpiresIn)
            \<longrightarrow> CurrentVoteSets st' fnID = Some v)
       \<and> (\<forall>fnID. CurrentVoteSets loaded fnID = None \<longrightarrow> CurrentVoteSets st' fnID = None)
       \<and> PreviousTimedOutVoteSets st' = PreviousTimedOutVoteSets loaded
       \<and> PreviousMaj23VoteSets st' = PreviousMaj23VoteSets loaded
       \<and> CurrentNonces st' = CurrentNonces loaded
       \<and> CurrentProposalInfo st' = CurrentProposalInfo loaded
       \<and> PreviousValidatorSet st' = PreviousValidatorSet loaded
       \<and> hd (effects (snd (OnStart e f))) = CallSaveReactorState st'
       \<and> (\<forall>vals fnID v st. CurrentVoteSets st fnID = Some v \<and> IsExpired (now e) v ExpiresIn
            \<longrightarrow> PreviousTimedOutVoteSets (fst (progressRoutine_body e vals fnID st)) fnID = Some v
                \<and> CurrentVoteSets (fst (progressRoutine_body e vals fnID st)) fnID = None)"
proof -
  let ?st = "loaded\<lparr>CurrentVoteSets :=
                OnStart_loop (now e) (GetAll (fnRegistry f)) (CurrentVoteSets loaded)\<rparr>"
  have s: "state (reactor (snd (OnStart e f))) = Some ?st"
    by (rule OnStart_loaded(1) [OF load])
  have h: "hd (effects (snd (OnStart e f))) = CallSaveReactorState ?st"
    by (simp add: OnStart_loaded(2) [OF load])
  have p: "\<forall>vals fnID v st. CurrentVoteSets st fnID = Some v \<and> IsExpired (now e) v ExpiresIn
            \<longrightarrow> PreviousTimedOutVoteSets (fst (progressRoutine_body e vals fnID st)) fnID = Some v
                \<and> CurrentVoteSets (fst (progressRoutine_body e vals fnID st)) fnID = None"
    by (simp add: progressRoutine_body_def)
  have c1: "\<forall>fnID v. CurrentVoteSets loaded fnID = Some v \<and> fnID \<in> set (GetAll (fnRegistry f))
               \<and> IsExpired (now e) v ExpiresIn
            \<longrightarrow> CurrentVoteSets ?st fnID = None"
    by (simp add: OnStart_loop_eq)
  have c2: "\<forall>fnID v. CurrentVoteSets loaded fnID = Some v
               \<and> \<not> (fnID \<in> set (GetAll (fnRegistry f)) \<and> IsExpired (now e) v ExpiresIn)
            \<longrightarrow> CurrentVoteSets ?st fnID = Some v"
    by (simp add: OnStart_loop_eq)
  have c3: "\<forall>fnID. CurrentVoteSets loaded fnID = None \<longrightarrow> CurrentVoteSets ?st fnID = None"
    by (simp add: OnStart_loop_eq)
  have fr: "PreviousTimedOutVoteSets ?st = PreviousTimedOutVoteSets loaded"
    "PreviousMaj23VoteSets ?st = PreviousMaj23VoteSets loaded"
    "CurrentNonces ?st = CurrentNonces loaded"
    "CurrentProposalInfo ?st = CurrentProposalInfo loaded"
    "PreviousValidatorSet ?st = PreviousValidatorSet loaded"
    by simp_all
  from s h p c1 c2 c3 fr show ?thesis by blast
qed


theorem OnStart_drops_expired_witness:
  "LoadReactorState
      (ex_env_loading (ex_state\<lparr>CurrentVoteSets := [''f'' \<mapsto> ex_voteSet ''a'' 1 50 [VoteTypeAgree, Unvoted, Unvoted]]\<rparr>))
     = Inr (ex_state\<lparr>CurrentVoteSets := [''f'' \<mapsto> ex_voteSet ''a'' 1 50 [VoteTypeAgree, Unvoted, Unvoted]]\<rparr>)
   \<and> IsExpired 141 (ex_voteSet ''a'' 1 50 [VoteTypeAgree, Unvoted, Unvoted]) ExpiresIn
   \<and> after CurrentVoteSets
        (snd (OnStart
           (ex_env_loading (ex_state\<lparr>CurrentVoteSets := [''f'' \<mapsto> ex_voteSet ''a'' 1 50 [VoteTypeAgree, Unvoted, Unvoted]]\<rparr>))
           (ex_reactor 1 Maj23SigningThreshold ex_state))) ''f'' = None
   \<and> after PreviousTimedOutVoteSets
        (snd (OnStart
           (ex_env_loading (ex_state\<lparr>CurrentVoteSets := [''f'' \<mapsto> ex_voteSet ''a'' 1 50 [VoteTypeAgree, Unvoted, Unvoted]]\<rparr>))
           (ex_reactor 1 Maj23SigningThreshold ex_state))) ''f'' = None
   \<and> PreviousTimedOutVoteSets
        (fst (progressRoutine_body
           (ex_env_loading (ex_state\<lparr>CurrentVoteSets := [''f'' \<mapsto> ex_voteSet ''a'' 1 50 [VoteTypeAgree, Unvoted, Unvoted]]\<rparr>))
           ex_vals3 ''f''
           (ex_state\<lparr>CurrentVoteSets := [''f'' \<mapsto> ex_voteSet ''a'' 1 50 [VoteTypeAgree, Unvoted, Unvoted]]\<rparr>)))
        ''f''
       = Some (ex_voteSet ''a'' 1 50 [VoteTypeAgree, Unvoted, Unvoted])"
proof -
  let ?vs = "ex_voteSet ''a'' 1 50 [VoteTypeAgree, Unvoted, Unvoted]"
  let ?L = "ex_state\<lparr>CurrentVoteSets := [''f'' \<mapsto> ?vs]\<rparr>"
  let ?e = "ex_env_loading ?L"
  let ?f = "ex_reactor 1 Maj23SigningThreshold ex_state"
  have load: "LoadReactorState ?e = Inr ?L" by (simp add: ex_env_loading_def)
  have t: "now ?e = 141" by (simp add: ex_env_loading_def ex_env_def)
  have exp: "IsExpired 141 ?vs ExpiresIn"
    by (simp add: IsExpired_def ExpiresIn_def CommitRoutineExecutionBuffer_def ex_voteSet_def)
  have cur: "CurrentVoteSets ?L ''f'' = Some ?vs" by simp
  have reg: "''f'' \<in> set (GetAll (fnRegistry ?f))" by (simp add: GetAll_def ex_reactor_def)
  have old: "PreviousTimedOutVoteSets ?L = Map.empty" by (simp add: ex_state_def)
  from OnStart_drops_expired [OF load, of ?f] obtain st'
    where s: "state (reactor (snd (OnStart ?e ?f))) = Some st'"
      and d: "\<forall>fnID v. CurrentVoteSets ?L fnID = Some v \<and> fnID \<in> set (GetAll (fnRegistry ?f))
               \<and> IsExpired (now ?e) v ExpiresIn \<longrightarrow> CurrentVoteSets st' fnID = None"
      and k: "PreviousTimedOutVoteSets st' = PreviousTimedOutVoteSets ?L"
      and p: "\<forall>vals fnID v st. CurrentVoteSets st fnID = Some v \<and> IsExpired (now ?e) v ExpiresIn
            \<longrightarrow> PreviousTimedOutVoteSets (fst (progressRoutine_body ?e vals fnID st)) fnID = Some v
                \<and> CurrentVoteSets (fst (progressRoutine_body ?e vals fnID st)) fnID = None"
    by blast
  from d cur reg exp t have a: "CurrentVoteSets st' ''f'' = None" by metis
  from k old have b: "PreviousTimedOutVoteSets st' ''f'' = None" by simp
  from p cur exp t have c: "PreviousTimedOutVoteSets (fst (progressRoutine_body ?e ex_vals3 ''f'' ?L)) ''f''
      = Some ?vs" by metis
  have "after CurrentVoteSets (snd (OnStart ?e ?f)) ''f'' = None"
    "after PreviousTimedOutVoteSets (snd (OnStart ?e ?f)) ''f'' = None"
    using s a b by (simp_all add: after_def)
  with load exp c show ?thesis by blast
qed

subsection \<open>propose: the vote set that already meets the Agree threshold\<close>

text \<open>
  C8: when \<open>propose\<close> has created the vote set (the \<open>Fn\<close> produced a context and a
  message, the FnID is registered, the vote set ID and the signature could be produced)
  and the vote set meets the Agree threshold with the proposer's vote alone,
  \<open>SubmitMultiSignedMessage\<close> is called and the routine returns with the reactor as it
  was: the vote set is not stored, the nonce is not advanced, no commit routine is
  started, the state is not saved and nothing is sent.
\<close>



theorem propose_single_validator:
  assumes prep: "PrepareContext fn = Inr (True, ctx)"
    and size: "length ctx \<le> MaxContextSize"
    and msg: "GetMessageAndSignature fn ctx = Inr (message, signature)"
    and mapped: "MapMessage fn ctx (calculateMessageHash e message) message = None"
    and reg: "registryGet (fnRegistry f) fnID = Some registered"
    and st: "state f = Some st"
    and rid: "randomID e = Inr newVoteSetID"
    and new: "NewVoteSet e newVoteSetID
                (case CurrentNonces st fnID of None \<Rightarrow> 1 | Some n \<Rightarrow> n) (chainID f) ExpiresIn
                validatorIndex ctx
                (NewFnVotePayload \<lparr>FnID = fnID\<rparr>
                   (NewFnExecutionResponse
                      \<lparr>ind_Status = 0, ind_Error = [],
                       ind_Hash = calculateMessageHash e message,
                       ind_OracleSignature = signature\<rparr>
                      validatorIndex currentValidators))
                currentValidators currentProposalInfo
              = Inr voteSet"
    and cfg: "cfg f = Some c"
    and agree: "IsAgree (FnVoteSigningThreshold c) currentValidators voteSet"
  shows "reactor (propose e f fnID fn currentValidators currentProposalInfo validatorIndex) = f
       \<and> effects (propose e f fnID fn currentValidators currentProposalInfo validatorIndex) =
             [CallMapMessage fnID ctx (calculateMessageHash e message) message,
              SubmitMultiSignedMessage fnID ctx (Hash (Response (Payload voteSet)))
                (OracleSignatures (Response (Payload voteSet)))]
       \<and> \<not> panicked (propose e f fnID fn currentValidators currentProposalInfo validatorIndex)"
  using assms
  by (simp add: propose_def propose_locked_def NewFnExecutionRequest_def Let_def returns_def)

theorem propose_single_validator_witness:
  "PrepareContext ex_fn = Inr (True, [5])
   \<and> GetMessageAndSignature ex_fn [5] = Inr ([0xAA], [0xBB])
   \<and> IsAgree Maj23SigningThreshold [ex_validator 1]
        \<lparr>ID = ''b'', Nonce = 1, ChainID = ''chain'', CreationTime = 141,
         VoteSetExpiresIn = ExpiresIn, ValidatorsHash = [7], ExecutionContext = [5],
         Payload = \<lparr>Request = \<lparr>FnID = ''f''\<rparr>,
                    Response = \<lparr>Status = 0, Error = [], Hash = [0xAA],
                                OracleSignatures = [[0xBB]]\<rparr>\<rparr>,
         Votes = [VoteTypeAgree], ValidatorSignatures = [[9]], ProposalInfo = None\<rparr>
   \<and> reactor (propose ex_env (ex_reactor 1 Maj23SigningThreshold ex_state) ''f'' ex_fn
        [ex_validator 1] None 0)
       = ex_reactor 1 Maj23SigningThreshold ex_state
   \<and> effects (propose ex_env (ex_reactor 1 Maj23SigningThreshold ex_state) ''f'' ex_fn
        [ex_validator 1] None 0)
       = [CallMapMessage ''f'' [5] [0xAA] [0xAA],
          SubmitMultiSignedMessage ''f'' [5] [0xAA] [[0xBB]]]
   \<and> \<not> panicked (propose ex_env (ex_reactor 1 Maj23SigningThreshold ex_state) ''f'' ex_fn
        [ex_validator 1] None 0)"
proof -
  let ?f = "ex_reactor 1 Maj23SigningThreshold ex_state"
  let ?c = "\<lparr>OverrideValidatorSet = [], FnVoteSigningThreshold = Maj23SigningThreshold\<rparr>"
  let ?vs = "\<lparr>ID = ''b'', Nonce = 1, ChainID = ''chain'', CreationTime = 141,
         VoteSetExpiresIn = ExpiresIn, ValidatorsHash = [7], ExecutionContext = [5],
         Payload = \<lparr>Request = \<lparr>FnID = ''f''\<rparr>,
                    Response = \<lparr>Status = 0, Error = [], Hash = [0xAA],
                                OracleSignatures = [[0xBB]]\<rparr>\<rparr>,
         Votes = [VoteTypeAgree], ValidatorSignatures = [[9]], ProposalInfo = None\<rparr>"
  have prep: "PrepareContext ex_fn = Inr (True, [5])" by (simp add: ex_fn_def)
  have size: "length [5 :: 8 word] \<le> MaxContextSize" by (simp add: MaxContextSize_def)
  have msg: "GetMessageAndSignature ex_fn [5] = Inr ([0xAA], [0xBB])" by (simp add: ex_fn_def)
  have h: "calculateMessageHash ex_env [0xAA] = [0xAA]"
    by (simp add: calculateMessageHash_def ex_env_def)
  have mapped: "MapMessage ex_fn [5] (calculateMessageHash ex_env [0xAA]) [0xAA] = None"
    by (simp add: ex_fn_def)
  have reg: "registryGet (fnRegistry ?f) ''f'' = Some ex_fn"
    by (simp add: ex_reactor_def registryGet_def)
  have st: "state ?f = Some ex_state" by (simp add: ex_reactor_def)
  have rid: "randomID ex_env = Inr ''b''" by (simp add: ex_env_def)
  have new: "NewVoteSet ex_env ''b''
                (case CurrentNonces ex_state ''f'' of None \<Rightarrow> 1 | Some n \<Rightarrow> n) (chainID ?f)
                ExpiresIn 0 [5]
                (NewFnVotePayload \<lparr>FnID = ''f''\<rparr>
                   (NewFnExecutionResponse
                      \<lparr>ind_Status = 0, ind_Error = [],
                       ind_Hash = calculateMessageHash ex_env [0xAA],
                       ind_OracleSignature = [0xBB]\<rparr>
                      0 [ex_validator 1]))
                [ex_validator 1] None
              = Inr ?vs"
    by (simp add: NewVoteSet_def NewFnVotePayload_def NewFnExecutionResponse_def
        calculateMessageHash_def Let_def ex_env_def ex_state_def ex_reactor_def)
  have cfg: "cfg ?f = Some ?c" by (simp add: ex_reactor_def)
  have agree: "IsAgree Maj23SigningThreshold [ex_validator 1] ?vs"
    by (simp add: threshold_defs ex_validator_def)
  have agree': "IsAgree (FnVoteSigningThreshold ?c) [ex_validator 1] ?vs"
    using agree by simp
  from propose_single_validator [OF prep size msg mapped reg st rid new cfg agree']
    prep msg agree h
  show ?thesis by simp
qed

subsection \<open>The VoteSet handler: who receives the changed vote set\<close>

text \<open>
  C7, as amended: for a remote vote set that decodes, is valid and is not stale (the
  encoding succeeds), when the local vote set changed and the vote of the node itself,
  where the node attempts one, is added, the vote set is encoded and sent on the
  VoteSet channel: to every connected peer but the sender when the remote vote set
  replaced the local one and the node added no vote; to every connected peer, the sender
  included, when a merge adopted votes of the remote vote set, and when the node added
  its own vote. A merge that adopts nothing, without a vote of the node, sends nothing.
  When the attempt of the node to vote ends the run (\<open>GetMessageAndSignature\<close>,
  \<open>MapMessage\<close> or \<open>AddVote\<close> returns an error), nothing is sent, and the vote set
  that the replacement or the merge stored stays the current one.
\<close>

theorem handleVoteSetChannelMessage_gossip:
  assumes dec: "Unmarshal e msgBytes = Inr remote"
    and vals: "getValidatorSet e f = vals"
    and valid: "VoteSetIsValid e (chainID f) MaxContextSize True ExpiresInForSync vals
                  (fnRegistry f) (Some remote)"
    and st0: "state f = Some st0"
    and fnID: "GetFnID remote = fnID"
    and nonce: "(case CurrentNonces st0 fnID of None \<Rightarrow> 1 | Some n \<Rightarrow> n) = currentNonce"
    and fresh: "\<not> Nonce remote <s currentNonce"
    and st: "st = st0\<lparr>CurrentNonces := (CurrentNonces st0)(fnID \<mapsto> currentNonce)\<rparr>"
    and me: "areWeValidator f vals = (areWe, ownIndex)"
    and enc: "\<And>v. Marshal e v = Inr (encode v)"
  shows "(compareVoteSets f remote (CurrentVoteSets st fnID) currentNonce vals = Some 1
          \<and> (CurrentVoteSets st fnID = None \<or> fnID \<in> commitRoutineQuitCh f)
          \<and> \<not> (areWe \<and> \<not> HaveWeAlreadySigned remote ownIndex)
         \<longrightarrow> sent (handleVoteSetChannelMessage e f sender msgBytes)
               = sendTo (\<lambda>peerID. peerID \<noteq> sender) (connectedPeers f) FnVoteSetChannel
                   (encode remote))
       \<and> (compareVoteSets f remote (CurrentVoteSets st fnID) currentNonce vals = Some 0
          \<and> CurrentVoteSets st fnID = Some ours
          \<and> Merge e ours vals remote = Inr (changed, merged)
          \<and> \<not> (areWe \<and> \<not> HaveWeAlreadySigned merged ownIndex)
         \<longrightarrow> sent (handleVoteSetChannelMessage e f sender msgBytes)
               = (if changed
                  then sendTo (\<lambda>peerID. True) (connectedPeers f) FnVoteSetChannel (encode merged)
                  else []))
       \<and> (voteSetSwitch e f st remote currentNonce vals = Inr p
          \<and> vp_currentVoteSet p = Some cvs
          \<and> areWe \<and> \<not> HaveWeAlreadySigned cvs ownIndex
          \<and> voteStep e fnID vals p = Inr p' \<and> vp_currentVoteSet p' = Some voted
         \<longrightarrow> sent (handleVoteSetChannelMessage e f sender msgBytes)
               = sendTo (\<lambda>peerID. True) (connectedPeers f) FnVoteSetChannel (encode voted))
       \<and> (voteSetSwitch e f st remote currentNonce vals = Inr p
          \<and> voteStep e fnID vals p = Inl r
         \<longrightarrow> sent (handleVoteSetChannelMessage e f sender msgBytes) = []
             \<and> after CurrentVoteSets (handleVoteSetChannelMessage e f sender msgBytes) fnID
                 = vp_currentVoteSet p)"
proof -
  have run: "handleVoteSetChannelMessage e f sender msgBytes =
           (case voteSetSwitch e f st remote currentNonce vals of
              Inl r \<Rightarrow> r
            | Inr p \<Rightarrow>
                (case voteStep e fnID vals p of
                   Inl r \<Rightarrow> r
                 | Inr p' \<Rightarrow> gossipStep e sender p'))"
    using dec vals valid st0 fnID nonce fresh st by (rule handleVoteSetChannelMessage_phases)
  have all: "(\<lambda>peerID. True \<or> peerID \<noteq> sender) = (\<lambda>peerID. True)"
    and but: "(\<lambda>peerID. False \<or> peerID \<noteq> sender) = (\<lambda>peerID. peerID \<noteq> sender)"
    by simp_all
  have replace: "sent (handleVoteSetChannelMessage e f sender msgBytes)
        = sendTo (\<lambda>peerID. peerID \<noteq> sender) (connectedPeers f) FnVoteSetChannel (encode remote)"
    if c: "compareVoteSets f remote (CurrentVoteSets st fnID) currentNonce vals = Some 1"
      and q: "CurrentVoteSets st fnID = None \<or> fnID \<in> commitRoutineQuitCh f"
      and nv: "\<not> (areWe \<and> \<not> HaveWeAlreadySigned remote ownIndex)"
  proof -
    from voteSetSwitch_replace [of f remote st currentNonce vals e] c q fnID
    obtain p0 where p0: "voteSetSwitch e f st remote currentNonce vals = Inr p0"
      "vp_currentVoteSet p0 = Some remote" "\<not> didWeContribute p0" "hasOurVoteSetChanged p0"
      "filter isSend (vp_effects p0) = []" "connectedPeers (vp_reactor p0) = connectedPeers f"
      "privValidator (vp_reactor p0) = privValidator f"
      by auto
    have a: "areWeValidator (vp_reactor p0) vals = (areWe, ownIndex)"
      using areWeValidator_cong [OF p0(7)] me by simp
    have v: "voteStep e fnID vals p0 = Inr p0"
      using a p0(2) nv by (rule voteStep_no_vote)
    show ?thesis
      unfolding run p0(1) using v sent_gossipStep [OF p0(2) enc p0(5), of sender] p0(3,4,6)
      by (simp add: but)
  qed
  have merge: "sent (handleVoteSetChannelMessage e f sender msgBytes)
        = (if changed
           then sendTo (\<lambda>peerID. True) (connectedPeers f) FnVoteSetChannel (encode merged)
           else [])"
    if c: "compareVoteSets f remote (CurrentVoteSets st fnID) currentNonce vals = Some 0"
      and o: "CurrentVoteSets st fnID = Some ours"
      and m: "Merge e ours vals remote = Inr (changed, merged)"
      and nv: "\<not> (areWe \<and> \<not> HaveWeAlreadySigned merged ownIndex)"
  proof -
    from voteSetSwitch_merge [of f remote st currentNonce vals ours e changed merged] c o m fnID
    obtain p0 where p0: "voteSetSwitch e f st remote currentNonce vals = Inr p0"
      "vp_currentVoteSet p0 = Some merged" "didWeContribute p0 = changed"
      "hasOurVoteSetChanged p0 = changed"
      "filter isSend (vp_effects p0) = []" "connectedPeers (vp_reactor p0) = connectedPeers f"
      "privValidator (vp_reactor p0) = privValidator f"
      by auto
    have a: "areWeValidator (vp_reactor p0) vals = (areWe, ownIndex)"
      using areWeValidator_cong [OF p0(7)] me by simp
    have v: "voteStep e fnID vals p0 = Inr p0"
      using a p0(2) nv by (rule voteStep_no_vote)
    show ?thesis
      unfolding run p0(1) using v sent_gossipStep [OF p0(2) enc p0(5), of sender] p0(3,4,6)
      by (simp add: all)
  qed
  have vote: "sent (handleVoteSetChannelMessage e f sender msgBytes)
        = sendTo (\<lambda>peerID. True) (connectedPeers f) FnVoteSetChannel (encode voted)"
    if sw: "voteSetSwitch e f st remote currentNonce vals = Inr p"
      and cur: "vp_currentVoteSet p = Some cvs"
      and w: "areWe" and ns: "\<not> HaveWeAlreadySigned cvs ownIndex"
      and vs: "voteStep e fnID vals p = Inr p'" and cur': "vp_currentVoteSet p' = Some voted"
  proof -
    have pp: "filter isSend (vp_effects p) = [] \<and> connectedPeers (vp_reactor p) = connectedPeers f
        \<and> privValidator (vp_reactor p) = privValidator f"
      using sw cur
      by (auto simp add: voteSetSwitch_def Let_def
          split: option.splits sum.splits if_splits prod.splits)
    then have a: "areWeValidator (vp_reactor p) vals = (True, ownIndex)"
      using areWeValidator_cong [of "vp_reactor p" f vals] me w by simp
    from voteStep_voted [OF a cur ns vs] pp
    have p': "didWeContribute p'" "hasOurVoteSetChanged p'"
      "filter isSend (vp_effects p') = []" "connectedPeers (vp_reactor p') = connectedPeers f"
      by simp_all
    show ?thesis
      unfolding run sw using vs sent_gossipStep [OF cur' enc p'(3), of sender] p'(1,2,4)
      by (simp add: all)
  qed
  have failed: "sent (handleVoteSetChannelMessage e f sender msgBytes) = []
        \<and> after CurrentVoteSets (handleVoteSetChannelMessage e f sender msgBytes) fnID
            = vp_currentVoteSet p"
    if sw: "voteSetSwitch e f st remote currentNonce vals = Inr p"
      and vs: "voteStep e fnID vals p = Inl r"
  proof -
    have h: "handleVoteSetChannelMessage e f sender msgBytes = r"
      unfolding run sw using vs by simp
    from voteStep_failed [OF vs] voteSetSwitch_stored [OF sw] show ?thesis
      unfolding h fnID [symmetric] by (simp add: sent_def after_def)
  qed
  from replace merge vote failed show ?thesis by blast
qed

text \<open>
  The claim as stated fails when the only change is a merge of the sender's payload: the
  node of validator 1 holds the vote set with its own Agree vote, peer \<open>p1\<close> sends the
  same vote set with the Agree vote of validator 2 added; the node adopts that vote, adds
  none, and sends the merged vote set to \<open>p1\<close> as well. It fails too when the vote of the
  node cannot be made: the node of validator 2 holds no vote set, takes the one that
  \<open>p1\<close> sends, and its \<open>Fn\<close> returns an error for the message; the vote set of the
  node has changed and nothing is sent.
\<close>

theorem handleVoteSetChannelMessage_gossip_counterexample:
  "after CurrentVoteSets
      (returns (ex_reactor 1 Maj23SigningThreshold
         (ex_commit_state 1 [VoteTypeAgree, Unvoted, Unvoted])) []) ''f''
     = Some (ex_voteSet ''a'' 1 100 [VoteTypeAgree, Unvoted, Unvoted])
   \<and> after CurrentVoteSets
      (handleVoteSetChannelMessage
         (ex_env_receiving (ex_voteSet ''a'' 1 100 [VoteTypeAgree, VoteTypeAgree, Unvoted]))
         (ex_reactor 1 Maj23SigningThreshold
            (ex_commit_state 1 [VoteTypeAgree, Unvoted, Unvoted])) ''p1'' []) ''f''
     = Some (ex_voteSet ''a'' 1 100 [VoteTypeAgree, VoteTypeAgree, Unvoted])
   \<and> sent
      (handleVoteSetChannelMessage
         (ex_env_receiving (ex_voteSet ''a'' 1 100 [VoteTypeAgree, VoteTypeAgree, Unvoted]))
         (ex_reactor 1 Maj23SigningThreshold
            (ex_commit_state 1 [VoteTypeAgree, Unvoted, Unvoted])) ''p1'' [])
     = [Send ''p1'' FnVoteSetChannel [1, 1, 0], Send ''p2'' FnVoteSetChannel [1, 1, 0]]
   \<and> after CurrentVoteSets
      (returns (ex_reactor_failing 2 Maj23SigningThreshold ex_state) []) ''f'' = None
   \<and> after CurrentVoteSets
      (handleVoteSetChannelMessage
         (ex_env_receiving (ex_voteSet ''a'' 1 100 [VoteTypeAgree, Unvoted, Unvoted]))
         (ex_reactor_failing 2 Maj23SigningThreshold ex_state) ''p1'' []) ''f''
     = Some (ex_voteSet ''a'' 1 100 [VoteTypeAgree, Unvoted, Unvoted])
   \<and> sent
      (handleVoteSetChannelMessage
         (ex_env_receiving (ex_voteSet ''a'' 1 100 [VoteTypeAgree, Unvoted, Unvoted]))
         (ex_reactor_failing 2 Maj23SigningThreshold ex_state) ''p1'' [])
     = []"
  by (simp add: handler_defs ex_defs ex_fn_failing_def ex_reactor_failing_def ex_encode_def
      Let_def word_sless_alt)

theorem handleVoteSetChannelMessage_gossip_witness:
  "sent (handleVoteSetChannelMessage
           (ex_env_receiving (ex_voteSet ''a'' 1 100 [VoteTypeAgree, Unvoted, Unvoted]))
           (ex_reactor 9 Maj23SigningThreshold ex_state) ''p1'' [])
     = [Send ''p2'' FnVoteSetChannel [1, 0, 0]]
   \<and> sent (handleVoteSetChannelMessage
           (ex_env_receiving (ex_voteSet ''a'' 1 100 [VoteTypeAgree, VoteTypeAgree, Unvoted]))
           (ex_reactor 1 Maj23SigningThreshold
              (ex_commit_state 1 [VoteTypeAgree, Unvoted, Unvoted])) ''p1'' [])
     = [Send ''p1'' FnVoteSetChannel [1, 1, 0], Send ''p2'' FnVoteSetChannel [1, 1, 0]]
   \<and> sent (handleVoteSetChannelMessage
           (ex_env_receiving (ex_voteSet ''a'' 1 100 [VoteTypeAgree, Unvoted, Unvoted]))
           (ex_reactor 2 Maj23SigningThreshold ex_state) ''p1'' [])
     = [Send ''p1'' FnVoteSetChannel [1, 1, 0], Send ''p2'' FnVoteSetChannel [1, 1, 0]]
   \<and> sent (handleVoteSetChannelMessage
           (ex_env_receiving (ex_voteSet ''a'' 1 100 [VoteTypeAgree, Unvoted, Unvoted]))
           (ex_reactor_failing 2 Maj23SigningThreshold ex_state) ''p1'' [])
     = []
   \<and> after CurrentVoteSets (handleVoteSetChannelMessage
           (ex_env_receiving (ex_voteSet ''a'' 1 100 [VoteTypeAgree, Unvoted, Unvoted]))
           (ex_reactor_failing 2 Maj23SigningThreshold ex_state) ''p1'' []) ''f''
     = Some (ex_voteSet ''a'' 1 100 [VoteTypeAgree, Unvoted, Unvoted])"
proof -
  let ?R1 = "ex_voteSet ''a'' 1 100 [VoteTypeAgree, Unvoted, Unvoted]"
  let ?R2 = "ex_voteSet ''a'' 1 100 [VoteTypeAgree, VoteTypeAgree, Unvoted]"
  let ?L = "ex_commit_state 1 [VoteTypeAgree, Unvoted, Unvoted]"
  let ?thr = "Maj23SigningThreshold"
  have fresh: "\<not> Nonce ?R1 <s 1" "\<not> Nonce ?R2 <s 1"
    by (simp_all add: ex_voteSet_def word_sless_alt)
  have n0: "(case CurrentNonces ex_state ''f'' of None \<Rightarrow> 1 | Some n \<Rightarrow> n) = 1"
    by (simp add: ex_state_def)
  have nL: "(case CurrentNonces ?L ''f'' of None \<Rightarrow> 1 | Some n \<Rightarrow> n) = 1"
    by (simp add: ex_commit_state_def)
  have s0: "ex_nonce_state 1 = ex_state\<lparr>CurrentNonces := (CurrentNonces ex_state)(''f'' \<mapsto> 1)\<rparr>"
    by (simp add: ex_nonce_state_def ex_state_def)
  have sL: "?L = ?L\<lparr>CurrentNonces := (CurrentNonces ?L)(''f'' \<mapsto> 1)\<rparr>"
    by (simp add: ex_commit_state_def)
  have st: "\<And>a st. state (ex_reactor a ?thr st) = Some st" by (simp add: ex_reactor_def)
  have peers: "\<And>a st. connectedPeers (ex_reactor a ?thr st) = [''p1'', ''p2'']"
    by (simp add: ex_reactor_def)
  have me9: "areWeValidator (ex_reactor 9 ?thr ex_state) ex_vals3 = (False, - 1)"
    by (simp add: areWeValidator_def myAddress_def ex_reactor_def ex_vals3_def ex_validator_def)
  have me1: "areWeValidator (ex_reactor 1 ?thr ?L) ex_vals3 = (True, 0)"
    by (simp add: areWeValidator_def myAddress_def ex_reactor_def ex_vals3_def ex_validator_def)
  have me2: "areWeValidator (ex_reactor 2 ?thr ex_state) ex_vals3 = (True, 1)"
    by (simp add: areWeValidator_def myAddress_def ex_reactor_def ex_vals3_def ex_validator_def)
  \<comment> \<open>A node that is no validator takes the vote set of the sender.\<close>
  have c1: "compareVoteSets (ex_reactor 9 ?thr ex_state) ?R1
      (CurrentVoteSets (ex_nonce_state 1) ''f'') 1 ex_vals3 = Some 1
      \<and> (CurrentVoteSets (ex_nonce_state 1) ''f'' = None
          \<or> ''f'' \<in> commitRoutineQuitCh (ex_reactor 9 ?thr ex_state))
      \<and> \<not> (False \<and> \<not> HaveWeAlreadySigned ?R1 (- 1))"
    by (simp add: compareVoteSets_def ex_nonce_state_def ex_state_def ex_voteSet_def)
  note T1 = handleVoteSetChannelMessage_gossip [OF ex_receiving_hyps(1) ex_receiving_hyps(2)
      ex_receiving_hyps(3) st ex_receiving_hyps(5) n0 fresh(1) s0 me9 ex_receiving_hyps(4),
      THEN conjunct1, rule_format, OF c1]
  have r1: "sent (handleVoteSetChannelMessage (ex_env_receiving ?R1)
      (ex_reactor 9 ?thr ex_state) ''p1'' []) = [Send ''p2'' FnVoteSetChannel [1, 0, 0]]"
    unfolding T1 by (simp add: peers sendTo_def ex_encode_def ex_voteSet_def)
  \<comment> \<open>A validator that has voted merges the vote of another validator.\<close>
  have c2: "compareVoteSets (ex_reactor 1 ?thr ?L) ?R2 (CurrentVoteSets ?L ''f'') 1 ex_vals3 = Some 0
      \<and> CurrentVoteSets ?L ''f'' = Some ?R1
      \<and> Merge (ex_env_receiving ?R2) ?R1 ex_vals3 ?R2 = Inr (True, ?R2)
      \<and> \<not> (True \<and> \<not> HaveWeAlreadySigned ?R2 0)"
    by (simp add: compareVoteSets_def Merge_def sameSubject_def adoptable_def adoptSlot_def
        slotOr_def setOracleSignature_def HaveWeAlreadySigned_def GetFnID_def GetMessageHash_def
        ex_defs)
  note T2 = handleVoteSetChannelMessage_gossip [OF ex_receiving_hyps(1) ex_receiving_hyps(2)
      ex_receiving_hyps(3) st ex_receiving_hyps(5) nL fresh(2) sL me1 ex_receiving_hyps(4),
      THEN conjunct2, THEN conjunct1, rule_format, OF c2]
  have r2: "sent (handleVoteSetChannelMessage (ex_env_receiving ?R2)
      (ex_reactor 1 ?thr ?L) ''p1'' [])
      = [Send ''p1'' FnVoteSetChannel [1, 1, 0], Send ''p2'' FnVoteSetChannel [1, 1, 0]]"
    unfolding T2 by (simp add: peers sendTo_def ex_encode_def ex_voteSet_def)
  \<comment> \<open>A validator that has not voted takes the vote set of the sender and adds its vote.\<close>
  have c3a: "compareVoteSets (ex_reactor 2 ?thr ex_state) ?R1
      (CurrentVoteSets (ex_nonce_state 1) (GetFnID ?R1)) 1 ex_vals3 = Some 1"
    "CurrentVoteSets (ex_nonce_state 1) (GetFnID ?R1) = None
       \<or> GetFnID ?R1 \<in> commitRoutineQuitCh (ex_reactor 2 ?thr ex_state)"
    by (simp_all add: compareVoteSets_def ex_nonce_state_def ex_state_def ex_voteSet_def)
  from voteSetSwitch_replace [OF c3a, of "ex_env_receiving ?R1"] obtain p
    where p: "voteSetSwitch (ex_env_receiving ?R1) (ex_reactor 2 ?thr ex_state)
                (ex_nonce_state 1) ?R1 1 ex_vals3 = Inr p"
      "vp_currentVoteSet p = Some ?R1" "vp_currentNonce p = Nonce ?R1"
      "privValidator (vp_reactor p) = privValidator (ex_reactor 2 ?thr ex_state)"
      "fnRegistry (vp_reactor p) = fnRegistry (ex_reactor 2 ?thr ex_state)"
    by blast
  have ns: "\<not> HaveWeAlreadySigned ?R1 1"
    by (simp add: HaveWeAlreadySigned_def ex_voteSet_def)
  have "\<exists>p'. voteStep (ex_env_receiving ?R1) ''f'' ex_vals3 p = Inr p'
      \<and> vp_currentVoteSet p' = Some ?R2"
    using p(2-5)
    by (simp add: voteStep_def areWeValidator_def myAddress_def registryGet_def
        calculateMessageHash_def GetMessageHash_def AddVote_def HaveWeAlreadySigned_def
        setOracleSignature_def Let_def ex_defs)
  then obtain p' where p': "voteStep (ex_env_receiving ?R1) ''f'' ex_vals3 p = Inr p'"
    "vp_currentVoteSet p' = Some ?R2"
    by blast
  from p(1,2) ns p' have c3: "voteSetSwitch (ex_env_receiving ?R1) (ex_reactor 2 ?thr ex_state)
                (ex_nonce_state 1) ?R1 1 ex_vals3 = Inr p
      \<and> vp_currentVoteSet p = Some ?R1 \<and> True \<and> \<not> HaveWeAlreadySigned ?R1 1
      \<and> voteStep (ex_env_receiving ?R1) ''f'' ex_vals3 p = Inr p'
      \<and> vp_currentVoteSet p' = Some ?R2"
    by simp
  note T3 = handleVoteSetChannelMessage_gossip [OF ex_receiving_hyps(1) ex_receiving_hyps(2)
      ex_receiving_hyps(3) st ex_receiving_hyps(5) n0 fresh(1) s0 me2 ex_receiving_hyps(4),
      THEN conjunct2, THEN conjunct2, THEN conjunct1, rule_format, OF c3]
  have r3: "sent (handleVoteSetChannelMessage (ex_env_receiving ?R1)
      (ex_reactor 2 ?thr ex_state) ''p1'' [])
      = [Send ''p1'' FnVoteSetChannel [1, 1, 0], Send ''p2'' FnVoteSetChannel [1, 1, 0]]"
    unfolding T3 by (simp add: peers sendTo_def ex_encode_def ex_voteSet_def)
  \<comment> \<open>A validator that has not voted takes the vote set of the sender and fails to vote.\<close>
  let ?F = "ex_reactor_failing 2 ?thr ex_state"
  have stF: "state ?F = Some ex_state"
    by (simp add: ex_reactor_failing_def ex_reactor_def)
  have valsF: "getValidatorSet (ex_env_receiving ?R1) ?F = ex_vals3"
    by (simp add: getValidatorSet_def ex_reactor_failing_def ex_reactor_def
        ex_env_receiving_def ex_env_def)
  have meF: "areWeValidator ?F ex_vals3 = (True, 1)"
    by (simp add: areWeValidator_def myAddress_def ex_reactor_failing_def ex_reactor_def
        ex_vals3_def ex_validator_def)
  have c4a: "compareVoteSets ?F ?R1
      (CurrentVoteSets (ex_nonce_state 1) (GetFnID ?R1)) 1 ex_vals3 = Some 1"
    "CurrentVoteSets (ex_nonce_state 1) (GetFnID ?R1) = None
       \<or> GetFnID ?R1 \<in> commitRoutineQuitCh ?F"
    by (simp_all add: compareVoteSets_def ex_nonce_state_def ex_state_def ex_voteSet_def)
  from voteSetSwitch_replace [OF c4a, of "ex_env_receiving ?R1"] obtain q
    where q: "voteSetSwitch (ex_env_receiving ?R1) ?F (ex_nonce_state 1) ?R1 1 ex_vals3 = Inr q"
      "vp_currentVoteSet q = Some ?R1"
      "privValidator (vp_reactor q) = privValidator ?F"
      "fnRegistry (vp_reactor q) = fnRegistry ?F"
    by blast
  have "\<exists>r. voteStep (ex_env_receiving ?R1) ''f'' ex_vals3 q = Inl r"
    using q(2-4)
    by (simp add: voteStep_def areWeValidator_def myAddress_def registryGet_def
        HaveWeAlreadySigned_def Let_def ex_fn_failing_def ex_reactor_failing_def ex_defs)
  then obtain r where r: "voteStep (ex_env_receiving ?R1) ''f'' ex_vals3 q = Inl r"
    by blast
  from q(1) r have c4: "voteSetSwitch (ex_env_receiving ?R1) ?F (ex_nonce_state 1) ?R1 1
        ex_vals3 = Inr q
      \<and> voteStep (ex_env_receiving ?R1) ''f'' ex_vals3 q = Inl r"
    by simp
  note T4 = handleVoteSetChannelMessage_gossip [OF ex_receiving_hyps(1) valsF
      ex_receiving_hyps(3) stF ex_receiving_hyps(5) n0 fresh(1) s0 meF ex_receiving_hyps(4),
      THEN conjunct2, THEN conjunct2, THEN conjunct2, rule_format, OF c4]
  have r4: "sent (handleVoteSetChannelMessage (ex_env_receiving ?R1) ?F ''p1'' []) = []"
    "after CurrentVoteSets (handleVoteSetChannelMessage (ex_env_receiving ?R1) ?F ''p1'' []) ''f''
       = Some ?R1"
    using T4 q(2) by simp_all
  from r1 r2 r3 r4 show ?thesis by blast
qed

end
